theory Spec2Isabelle
  imports Main "HOL-Library.Multiset"
begin

section \<open>The program: the check-in and aggregation engine of bot.py\<close>

text \<open>
  Python \<open>str\<close> values are modelled as \<^typ>\<open>string\<close>, holding the UTF-8 bytes of the
  text. The bot only concatenates, compares and joins its strings, and these operations
  agree on code points and on their UTF-8 encoding. Every non-ASCII literal of the source
  is written out byte by byte; the comment before it gives the source line and a gloss.
\<close>

subsection \<open>Settings (bot.py, lines 33-45)\<close>

text \<open>The two class labels of line 34: the digit 6 followed by the Cyrillic capital
  letters Ve (U+0412) and Ghe (U+0413).\<close>

definition CLASS_6V :: string where
  "CLASS_6V =
     ''6'' @ [CHR 0xD0, CHR 0x92]"

definition CLASS_6G :: string where
  "CLASS_6G =
     ''6'' @ [CHR 0xD0, CHR 0x93]"

definition CLASSES :: "string list" where
  "CLASSES = [CLASS_6V, CLASS_6G]"

text \<open>The habit labels of lines 39-44: an emoji, a space and a Russian sentence each
  (tap off while brushing teeth; lights off when leaving the room; no disposable cup;
  no plastic bag; litter in the bins; on foot or by green transport).\<close>

definition LBL_WATER_TEETH :: string where
  "LBL_WATER_TEETH =
     [CHR 0xF0, CHR 0x9F, CHR 0x9A, CHR 0xB0] @ '' '' @ [CHR 0xD0, CHR 0x92, CHR 0xD1, CHR 0x8B,
     CHR 0xD0, CHR 0xBA, CHR 0xD0, CHR 0xBB, CHR 0xD1, CHR 0x8E, CHR 0xD1, CHR 0x87, CHR 0xD0,
     CHR 0xB0, CHR 0xD1, CHR 0x8E] @ '' '' @ [CHR 0xD0, CHR 0xB2, CHR 0xD0, CHR 0xBE, CHR 0xD0,
     CHR 0xB4, CHR 0xD1, CHR 0x83] @ '' '' @ [CHR 0xD0, CHR 0xBF, CHR 0xD1, CHR 0x80, CHR 0xD0,
     CHR 0xB8] @ '' '' @ [CHR 0xD1, CHR 0x87, CHR 0xD0, CHR 0xB8, CHR 0xD1, CHR 0x81, CHR 0xD1,
     CHR 0x82, CHR 0xD0, CHR 0xBA, CHR 0xD0, CHR 0xB5] @ '' '' @ [CHR 0xD0, CHR 0xB7, CHR 0xD1,
     CHR 0x83, CHR 0xD0, CHR 0xB1, CHR 0xD0, CHR 0xBE, CHR 0xD0, CHR 0xB2]"

definition LBL_LIGHTS_OFF :: string where
  "LBL_LIGHTS_OFF =
     [CHR 0xF0, CHR 0x9F, CHR 0x92, CHR 0xA1] @ '' '' @ [CHR 0xD0, CHR 0x92, CHR 0xD1, CHR 0x8B,
     CHR 0xD0, CHR 0xBA, CHR 0xD0, CHR 0xBB, CHR 0xD1, CHR 0x8E, CHR 0xD1, CHR 0x87, CHR 0xD0,
     CHR 0xB0, CHR 0xD1, CHR 0x8E] @ '' '' @ [CHR 0xD1, CHR 0x81, CHR 0xD0, CHR 0xB2, CHR 0xD0,
     CHR 0xB5, CHR 0xD1, CHR 0x82] @ '', '' @ [CHR 0xD0, CHR 0xB2, CHR 0xD1, CHR 0x8B, CHR 0xD1,
     CHR 0x85, CHR 0xD0, CHR 0xBE, CHR 0xD0, CHR 0xB4, CHR 0xD1, CHR 0x8F] @ '' '' @ [CHR 0xD0,
     CHR 0xB8, CHR 0xD0, CHR 0xB7] @ '' '' @ [CHR 0xD0, CHR 0xBA, CHR 0xD0, CHR 0xBE, CHR 0xD0,
     CHR 0xBC, CHR 0xD0, CHR 0xBD, CHR 0xD0, CHR 0xB0, CHR 0xD1, CHR 0x82, CHR 0xD1, CHR 0x8B]"

definition LBL_NO_CUP :: string where
  "LBL_NO_CUP =
     [CHR 0xF0, CHR 0x9F, CHR 0xA5, CHR 0xA4] @ '' '' @ [CHR 0xD0, CHR 0x9D, CHR 0xD0, CHR 0xB5] @
     '' '' @ [CHR 0xD0, CHR 0xBF, CHR 0xD1, CHR 0x8C, CHR 0xD1, CHR 0x8E] @ '' '' @ [CHR 0xD0,
     CHR 0xB8, CHR 0xD0, CHR 0xB7] @ '' '' @ [CHR 0xD0, CHR 0xBE, CHR 0xD0, CHR 0xB4, CHR 0xD0,
     CHR 0xBD, CHR 0xD0, CHR 0xBE, CHR 0xD1, CHR 0x80, CHR 0xD0, CHR 0xB0, CHR 0xD0, CHR 0xB7,
     CHR 0xD0, CHR 0xBE, CHR 0xD0, CHR 0xB2, CHR 0xD0, CHR 0xBE, CHR 0xD0, CHR 0xB3, CHR 0xD0,
     CHR 0xBE] @ '' '' @ [CHR 0xD1, CHR 0x81, CHR 0xD1, CHR 0x82, CHR 0xD0, CHR 0xB0, CHR 0xD0,
     CHR 0xBA, CHR 0xD0, CHR 0xB0, CHR 0xD0, CHR 0xBD, CHR 0xD1, CHR 0x87, CHR 0xD0, CHR 0xB8,
     CHR 0xD0, CHR 0xBA, CHR 0xD0, CHR 0xB0]"

definition LBL_NO_BAG :: string where
  "LBL_NO_BAG =
     [CHR 0xF0, CHR 0x9F, CHR 0x9B, CHR 0x8D, CHR 0xEF, CHR 0xB8, CHR 0x8F] @ '' '' @ [CHR 0xD0,
     CHR 0x9D, CHR 0xD0, CHR 0xB5] @ '' '' @ [CHR 0xD0, CHR 0xB8, CHR 0xD1, CHR 0x81, CHR 0xD0,
     CHR 0xBF, CHR 0xD0, CHR 0xBE, CHR 0xD0, CHR 0xBB, CHR 0xD1, CHR 0x8C, CHR 0xD0, CHR 0xB7,
     CHR 0xD1, CHR 0x83, CHR 0xD1, CHR 0x8E] @ '' '' @ [CHR 0xD0, CHR 0xBF, CHR 0xD0, CHR 0xBB,
     CHR 0xD0, CHR 0xB0, CHR 0xD1, CHR 0x81, CHR 0xD1, CHR 0x82, CHR 0xD0, CHR 0xB8, CHR 0xD0,
     CHR 0xBA, CHR 0xD0, CHR 0xBE, CHR 0xD0, CHR 0xB2, CHR 0xD1, CHR 0x8B, CHR 0xD0, CHR 0xB9] @
     '' '' @ [CHR 0xD0, CHR 0xBF, CHR 0xD0, CHR 0xB0, CHR 0xD0, CHR 0xBA, CHR 0xD0, CHR 0xB5,
     CHR 0xD1, CHR 0x82]"

definition LBL_TRASH_PLACE :: string where
  "LBL_TRASH_PLACE =
     [CHR 0xF0, CHR 0x9F, CHR 0x97, CHR 0x91, CHR 0xEF, CHR 0xB8, CHR 0x8F] @ '' '' @ [CHR 0xD0,
     CHR 0x9C, CHR 0xD1, CHR 0x83, CHR 0xD1, CHR 0x81, CHR 0xD0, CHR 0xBE, CHR 0xD1, CHR 0x80] @
     '' - '' @ [CHR 0xD0, CHR 0xB2] @ '' '' @ [CHR 0xD0, CHR 0xBE, CHR 0xD1, CHR 0x82, CHR 0xD0,
     CHR 0xB2, CHR 0xD0, CHR 0xB5, CHR 0xD0, CHR 0xB4, CHR 0xD1, CHR 0x91, CHR 0xD0, CHR 0xBD,
     CHR 0xD0, CHR 0xBD, CHR 0xD1, CHR 0x8B, CHR 0xD0, CHR 0xB5] @ '' '' @ [CHR 0xD0, CHR 0xBC,
     CHR 0xD0, CHR 0xB5, CHR 0xD1, CHR 0x81, CHR 0xD1, CHR 0x82, CHR 0xD0, CHR 0xB0]"

definition LBL_ECO_MOVE :: string where
  "LBL_ECO_MOVE =
     [CHR 0xF0, CHR 0x9F, CHR 0x9A, CHR 0xB6] @ '' '' @ [CHR 0xD0, CHR 0x9F, CHR 0xD0, CHR 0xB5,
     CHR 0xD1, CHR 0x88, CHR 0xD0, CHR 0xBA, CHR 0xD0, CHR 0xBE, CHR 0xD0, CHR 0xBC] @ ''/'' @
     [CHR 0xD1, CHR 0x8D, CHR 0xD0, CHR 0xBA, CHR 0xD0, CHR 0xBE, CHR 0xD0, CHR 0xBB, CHR 0xD0,
     CHR 0xBE, CHR 0xD0, CHR 0xB3, CHR 0xD0, CHR 0xB8, CHR 0xD1, CHR 0x87, CHR 0xD0, CHR 0xBD,
     CHR 0xD1, CHR 0x8B, CHR 0xD0, CHR 0xB9] @ '' '' @ [CHR 0xD1, CHR 0x82, CHR 0xD1, CHR 0x80,
     CHR 0xD0, CHR 0xB0, CHR 0xD0, CHR 0xBD, CHR 0xD1, CHR 0x81, CHR 0xD0, CHR 0xBF, CHR 0xD0,
     CHR 0xBE, CHR 0xD1, CHR 0x80, CHR 0xD1, CHR 0x82]"

definition HABITS :: "(string \<times> string) list" where
  "HABITS =
     [(''water_teeth'', LBL_WATER_TEETH),
      (''lights_off'', LBL_LIGHTS_OFF),
      (''no_cup'', LBL_NO_CUP),
      (''no_bag'', LBL_NO_BAG),
      (''trash_place'', LBL_TRASH_PLACE),
      (''eco_move'', LBL_ECO_MOVE)]"

subsection \<open>The database (bot.py, lines 56-128)\<close>

text \<open>
  The two SQLite tables of \<open>init_db\<close>, each a list of rows in storage order.
  \<open>users.user_id\<close> is the primary key of \<open>users\<close> and the whole triple that of
  \<open>checkins\<close>; the writes below keep both keys unique (\<open>pk_ok\<close>). The foreign key of
  \<open>checkins\<close> is declared but SQLite only enforces it under
  \<open>PRAGMA foreign_keys=ON\<close>, which \<open>db()\<close> never issues, so it constrains nothing here.
  A failing disk or a locked file is outside the model.
\<close>

record user_row =
  user_id :: int
  username :: "string option"
  first_name :: "string option"
  class_name :: "string option"
  joined_at :: string

type_synonym checkin_row = "int \<times> string \<times> string"

record database =
  users :: "user_row list"
  checkins :: "checkin_row list"

definition init_db :: database where
  "init_db = \<lparr>users = [], checkins = []\<rparr>"

text \<open>The row a user id selects, if any (\<open>SELECT ... FROM users WHERE user_id=?\<close>).\<close>

definition find_user :: "database \<Rightarrow> int \<Rightarrow> user_row option" where
  "find_user s uid = find (\<lambda>r. user_id r = uid) (users s)"

text \<open>\<open>INSERT ... ON CONFLICT(user_id) DO UPDATE SET username, first_name\<close>: the row
  with the same key gets the two names of the new row and keeps its other columns; with
  no such row the new one is stored.\<close>

fun upsert_row :: "user_row \<Rightarrow> user_row list \<Rightarrow> user_row list" where
  "upsert_row new [] = [new]"
| "upsert_row new (r # rs) =
     (if user_id r = user_id new
      then r\<lparr>username := username new, first_name := first_name new\<rparr> # rs
      else r # upsert_row new rs)"

text \<open>\<open>now\<close> stands for \<open>datetime.now().isoformat()\<close>, read when the call is made.\<close>

definition upsert_user :: "string \<Rightarrow> database \<Rightarrow> int \<Rightarrow> string option \<Rightarrow> string option \<Rightarrow> database" where
  "upsert_user now s uid uname fname =
     s\<lparr>users := upsert_row
        \<lparr>user_id = uid, username = uname, first_name = fname, class_name = None, joined_at = now\<rparr>
        (users s)\<rparr>"

definition set_user_class :: "database \<Rightarrow> int \<Rightarrow> string \<Rightarrow> database" where
  "set_user_class s uid cls =
     s\<lparr>users := map (\<lambda>r. if user_id r = uid then r\<lparr>class_name := Some cls\<rparr> else r) (users s)\<rparr>"

definition get_user_class :: "database \<Rightarrow> int \<Rightarrow> string option" where
  "get_user_class s uid = (case find_user s uid of None \<Rightarrow> None | Some r \<Rightarrow> class_name r)"

definition get_all_users :: "database \<Rightarrow> int list" where
  "get_all_users s = map user_id (users s)"

definition get_class_users :: "database \<Rightarrow> string \<Rightarrow> int list" where
  "get_class_users s cls = map user_id (filter (\<lambda>r. class_name r = Some cls) (users s))"

text \<open>\<open>INSERT OR IGNORE\<close> stores the triple unless it is there already; \<open>DELETE\<close>
  removes every row equal to it.\<close>

definition set_habit :: "database \<Rightarrow> int \<Rightarrow> string \<Rightarrow> string \<Rightarrow> bool \<Rightarrow> database" where
  "set_habit s uid day habit_key enabled =
     (if enabled
      then (if (uid, day, habit_key) \<in> set (checkins s) then s
            else s\<lparr>checkins := checkins s @ [(uid, day, habit_key)]\<rparr>)
      else s\<lparr>checkins := filter (\<lambda>c. c \<noteq> (uid, day, habit_key)) (checkins s)\<rparr>)"

definition get_user_day_habits :: "database \<Rightarrow> int \<Rightarrow> string \<Rightarrow> string set" where
  "get_user_day_habits s uid day =
     set (map (\<lambda>(u, d, h). h) (filter (\<lambda>(u, d, h). u = uid \<and> d = day) (checkins s)))"

subsection \<open>Statistics queries (bot.py, lines 130-177)\<close>

text \<open>
  \<open>COUNT(DISTINCT x)\<close> counts the different values of a column. \<open>GROUP BY k\<close> with
  \<open>COUNT(*)\<close> and \<open>ORDER BY c DESC\<close> gives one row per value of \<open>k\<close> that occurs, with
  the number of its rows, largest count first. SQLite leaves the order of rows with
  equal counts open; the model fixes one (a stable sort of the groups), and no statement
  below depends on which.
\<close>

definition count_distinct :: "'a list \<Rightarrow> nat" where
  "count_distinct xs = length (remdups xs)"

definition group_count_desc :: "'a list \<Rightarrow> ('a \<times> nat) list" where
  "group_count_desc ks =
     sort_key (\<lambda>(k, c). - int c) (map (\<lambda>k. (k, count_list ks k)) (remdups ks))"

text \<open>The local \<open>total\<close> of the source is written \<open>total_count\<close>: \<open>total\<close> is a constant
  of HOL.\<close>

definition get_user_stats :: "database \<Rightarrow> int \<Rightarrow> nat \<times> nat \<times> (string \<times> nat) list" where
  "get_user_stats s uid =
     (let rows = filter (\<lambda>(u, d, h). u = uid) (checkins s);
          total_count = length rows;
          days = count_distinct (map (\<lambda>(u, d, h). d) rows);
          by_habit = group_count_desc (map (\<lambda>(u, d, h). h) rows)
      in (total_count, days, by_habit))"

text \<open>\<open>checkins JOIN users ON users.user_id = checkins.user_id\<close>.\<close>

definition join_users :: "database \<Rightarrow> (checkin_row \<times> user_row) list" where
  "join_users s = [(c, r). c \<leftarrow> checkins s, r \<leftarrow> users s, user_id r = fst c]"

text \<open>
  \<open>get_group_stats\<close> splices \<open>where_sql\<close> into its four queries. Its two callers pass the
  empty string with no parameters, and \<open>WHERE users.class_name=?\<close> with one class; these
  are the two values of the type. A row whose class is \<open>NULL\<close> never equals a class.
\<close>

datatype where_sql = Where_None | Where_Class string

fun where_holds :: "where_sql \<Rightarrow> user_row \<Rightarrow> bool" where
  "where_holds Where_None r = True"
| "where_holds (Where_Class cls) r = (class_name r = Some cls)"

definition get_group_stats :: "database \<Rightarrow> where_sql \<Rightarrow> nat \<times> nat \<times> nat \<times> (string \<times> nat) list" where
  "get_group_stats s w =
     (let users_count = length (filter (where_holds w) (users s));
          rows = filter (\<lambda>(c, r). where_holds w r) (join_users s);
          total_actions = length rows;
          days_count = count_distinct (map (\<lambda>((u, d, h), r). d) rows);
          by_habit = group_count_desc (map (\<lambda>((u, d, h), r). h) rows)
      in (users_count, total_actions, days_count, by_habit))"

subsection \<open>Keyboards and replies (bot.py, lines 182-206)\<close>

text \<open>
  What a handler hands to the chat transport is recorded as a list of actions, in the
  order of the calls: \<open>m.answer\<close> and \<open>cb.message.answer\<close> (text, parse mode, keyboard),
  \<open>cb.answer\<close>, \<open>cb.message.edit_reply_markup\<close>, \<open>bot.send_message\<close> (chat id, text,
  keyboard) and \<open>log.warning\<close> (the formatted line).
\<close>

datatype button = InlineKeyboardButton (btn_text: string) (callback_data: string)

datatype markup =
    ReplyKeyboardMarkup (keyboard: "string list list") (resize_keyboard: bool)
      (is_persistent: bool) (input_field_placeholder: string)
  | InlineKeyboardMarkup (inline_keyboard: "button list list")

datatype action =
    Answer string "string option" markup
  | CbAnswer string
  | EditReplyMarkup markup
  | SendMessage int string markup
  | LogWarning string

datatype error = ValueError

text \<open>The menu buttons of lines 185-187 (check mark: mark today; chart: my statistics;
  raised hand: class statistics; school: school statistics) and the placeholder of
  line 191 (choose an action, with an ellipsis).\<close>

definition BTN_CHECKIN :: string where
  "BTN_CHECKIN =
     [CHR 0xE2, CHR 0x9C, CHR 0x85] @ '' '' @ [CHR 0xD0, CHR 0x9E, CHR 0xD1, CHR 0x82, CHR 0xD0,
     CHR 0xBC, CHR 0xD0, CHR 0xB5, CHR 0xD1, CHR 0x82, CHR 0xD0, CHR 0xB8, CHR 0xD1, CHR 0x82,
     CHR 0xD1, CHR 0x8C] @ '' '' @ [CHR 0xD1, CHR 0x81, CHR 0xD0, CHR 0xB5, CHR 0xD0, CHR 0xB3,
     CHR 0xD0, CHR 0xBE, CHR 0xD0, CHR 0xB4, CHR 0xD0, CHR 0xBD, CHR 0xD1, CHR 0x8F]"

definition BTN_MY_STATS :: string where
  "BTN_MY_STATS =
     [CHR 0xF0, CHR 0x9F, CHR 0x93, CHR 0x8A] @ '' '' @ [CHR 0xD0, CHR 0x9C, CHR 0xD0, CHR 0xBE,
     CHR 0xD1, CHR 0x8F] @ '' '' @ [CHR 0xD1, CHR 0x81, CHR 0xD1, CHR 0x82, CHR 0xD0, CHR 0xB0,
     CHR 0xD1, CHR 0x82, CHR 0xD0, CHR 0xB8, CHR 0xD1, CHR 0x81, CHR 0xD1, CHR 0x82, CHR 0xD0,
     CHR 0xB8, CHR 0xD0, CHR 0xBA, CHR 0xD0, CHR 0xB0]"

definition BTN_CLASS_STATS :: string where
  "BTN_CLASS_STATS =
     [CHR 0xF0, CHR 0x9F, CHR 0x99, CHR 0x8B] @ '' '' @ [CHR 0xD0, CHR 0xA1, CHR 0xD1, CHR 0x82,
     CHR 0xD0, CHR 0xB0, CHR 0xD1, CHR 0x82, CHR 0xD0, CHR 0xB8, CHR 0xD1, CHR 0x81, CHR 0xD1,
     CHR 0x82, CHR 0xD0, CHR 0xB8, CHR 0xD0, CHR 0xBA, CHR 0xD0, CHR 0xB0] @ '' '' @ [CHR 0xD0,
     CHR 0xBA, CHR 0xD0, CHR 0xBB, CHR 0xD0, CHR 0xB0, CHR 0xD1, CHR 0x81, CHR 0xD1, CHR 0x81,
     CHR 0xD0, CHR 0xB0]"

definition BTN_SCHOOL_STATS :: string where
  "BTN_SCHOOL_STATS =
     [CHR 0xF0, CHR 0x9F, CHR 0x8F, CHR 0xAB] @ '' '' @ [CHR 0xD0, CHR 0xA1, CHR 0xD1, CHR 0x82,
     CHR 0xD0, CHR 0xB0, CHR 0xD1, CHR 0x82, CHR 0xD0, CHR 0xB8, CHR 0xD1, CHR 0x81, CHR 0xD1,
     CHR 0x82, CHR 0xD0, CHR 0xB8, CHR 0xD0, CHR 0xBA, CHR 0xD0, CHR 0xB0] @ '' '' @ [CHR 0xD1,
     CHR 0x88, CHR 0xD0, CHR 0xBA, CHR 0xD0, CHR 0xBE, CHR 0xD0, CHR 0xBB, CHR 0xD1, CHR 0x8B]"

definition MENU_PLACEHOLDER :: string where
  "MENU_PLACEHOLDER =
     [CHR 0xD0, CHR 0x92, CHR 0xD1, CHR 0x8B, CHR 0xD0, CHR 0xB1, CHR 0xD0, CHR 0xB5, CHR 0xD1,
     CHR 0x80, CHR 0xD0, CHR 0xB8, CHR 0xD1, CHR 0x82, CHR 0xD0, CHR 0xB5] @ '' '' @ [CHR 0xD0,
     CHR 0xB4, CHR 0xD0, CHR 0xB5, CHR 0xD0, CHR 0xB9, CHR 0xD1, CHR 0x81, CHR 0xD1, CHR 0x82,
     CHR 0xD0, CHR 0xB2, CHR 0xD0, CHR 0xB8, CHR 0xD0, CHR 0xB5, CHR 0xE2, CHR 0x80, CHR 0xA6]"

definition main_menu_kb :: markup where
  "main_menu_kb =
     ReplyKeyboardMarkup [[BTN_CHECKIN], [BTN_MY_STATS, BTN_CLASS_STATS], [BTN_SCHOOL_STATS]]
       True True MENU_PLACEHOLDER"

definition class_pick_kb :: markup where
  "class_pick_kb =
     InlineKeyboardMarkup [map (\<lambda>c. InlineKeyboardButton c (''class:'' @ c)) CLASSES]"

text \<open>The marks of line 203 (a white check mark on green, U+2705, and a ballot box,
  U+2610, each followed by a space) and the button of line 205 (pushpin: done).\<close>

definition MARK_ON :: string where
  "MARK_ON =
     [CHR 0xE2, CHR 0x9C, CHR 0x85] @ '' ''"

definition MARK_OFF :: string where
  "MARK_OFF =
     [CHR 0xE2, CHR 0x98, CHR 0x90] @ '' ''"

definition BTN_DONE :: string where
  "BTN_DONE =
     [CHR 0xF0, CHR 0x9F, CHR 0x93, CHR 0x8C] @ '' '' @ [CHR 0xD0, CHR 0x93, CHR 0xD0, CHR 0xBE,
     CHR 0xD1, CHR 0x82, CHR 0xD0, CHR 0xBE, CHR 0xD0, CHR 0xB2, CHR 0xD0, CHR 0xBE]"

definition habits_kb :: "database \<Rightarrow> int \<Rightarrow> string \<Rightarrow> markup" where
  "habits_kb s uid day_str =
     (let selected = get_user_day_habits s uid day_str in
      InlineKeyboardMarkup
        (map (\<lambda>(key, label).
               [InlineKeyboardButton ((if key \<in> selected then MARK_ON else MARK_OFF) @ label)
                  (''toggle:'' @ day_str @ '':'' @ key)]) HABITS
         @ [[InlineKeyboardButton BTN_DONE (''done:'' @ day_str)]]))"

text \<open>\<open>str(n)\<close> of a Python integer: its decimal digits, with a minus sign below zero.\<close>

fun str_nat :: "nat \<Rightarrow> string" where
  "str_nat n =
     (if n < 10 then [''0123456789'' ! n]
      else str_nat (n div 10) @ [''0123456789'' ! (n mod 10)])"

declare str_nat.simps [simp del]

definition str_int :: "int \<Rightarrow> string" where
  "str_int i = (if i < 0 then ''-'' @ str_nat (nat (- i)) else str_nat (nat i))"

text \<open>Python's truth value of a \<open>str | None\<close>: \<open>None\<close> and the empty string are false.\<close>

definition truthy :: "string option \<Rightarrow> bool" where
  "truthy v = (case v of None \<Rightarrow> False | Some t \<Rightarrow> t \<noteq> [])"

text \<open>\<open>data.split(":", maxsplit)\<close>: at most \<open>maxsplit\<close> cuts, at the first colons.\<close>

fun split_colon :: "nat \<Rightarrow> string \<Rightarrow> string list" where
  "split_colon 0 t = [t]"
| "split_colon (Suc n) t =
     (if CHR '':'' \<in> set t
      then takeWhile (\<lambda>c. c \<noteq> CHR '':'') t
             # split_colon n (tl (dropWhile (\<lambda>c. c \<noteq> CHR '':'') t))
      else [t])"

subsection \<open>Formatting the top habits (bot.py, lines 211-223)\<close>

fun label_in :: "(string \<times> string) list \<Rightarrow> string \<Rightarrow> string" where
  "label_in [] key = key"
| "label_in ((k, lbl) # rest) key = (if k = key then lbl else label_in rest key)"

definition habit_label :: "string \<Rightarrow> string" where
  "habit_label key = label_in HABITS key"

text \<open>\<open>"\n".join(lines)\<close>.\<close>

fun join_nl :: "string list \<Rightarrow> string" where
  "join_nl [] = []"
| "join_nl [l] = l"
| "join_nl (l # m # ls) = l @ [CHR 0x0A] @ join_nl (m # ls)"

text \<open>The placeholder of line 219 (no data yet) and the separator of line 222 (an em
  dash, U+2014, between spaces).\<close>

definition NO_DATA_YET :: string where
  "NO_DATA_YET =
     [CHR 0xD0, CHR 0x9F, CHR 0xD0, CHR 0xBE, CHR 0xD0, CHR 0xBA, CHR 0xD0, CHR 0xB0] @ '' '' @
     [CHR 0xD0, CHR 0xBD, CHR 0xD0, CHR 0xB5, CHR 0xD1, CHR 0x82] @ '' '' @ [CHR 0xD0, CHR 0xB4,
     CHR 0xD0, CHR 0xB0, CHR 0xD0, CHR 0xBD, CHR 0xD0, CHR 0xBD, CHR 0xD1, CHR 0x8B, CHR 0xD1,
     CHR 0x85] @ ''.''"

definition EM_DASH_SEP :: string where
  "EM_DASH_SEP =
     '' '' @ [CHR 0xE2, CHR 0x80, CHR 0x94] @ '' ''"

text \<open>\<open>lines\<close> as the loop of lines 220-222 builds it; every caller passes \<open>limit=3\<close>.\<close>

definition top_habit_lines :: "(string \<times> nat) list \<Rightarrow> nat \<Rightarrow> string list" where
  "top_habit_lines by_habit limit =
     map (\<lambda>(key, cnt). habit_label key @ EM_DASH_SEP @ str_nat cnt) (take limit by_habit)"

definition format_top_habits :: "(string \<times> nat) list \<Rightarrow> nat \<Rightarrow> string" where
  "format_top_habits by_habit limit =
     (if by_habit = [] then NO_DATA_YET else join_nl (top_habit_lines by_habit limit))"

subsection \<open>Choosing a class (bot.py, lines 266-279)\<close>

text \<open>The texts of lines 270 (there is no such class in the first release), 274 (class
  saved) and 276-277 (done, your class is ...; now you can mark habits).\<close>

definition MSG_UNKNOWN_CLASS :: string where
  "MSG_UNKNOWN_CLASS =
     [CHR 0xD0, CHR 0xA2, CHR 0xD0, CHR 0xB0, CHR 0xD0, CHR 0xBA, CHR 0xD0, CHR 0xBE, CHR 0xD0,
     CHR 0xB3, CHR 0xD0, CHR 0xBE] @ '' '' @ [CHR 0xD0, CHR 0xBA, CHR 0xD0, CHR 0xBB, CHR 0xD0,
     CHR 0xB0, CHR 0xD1, CHR 0x81, CHR 0xD1, CHR 0x81, CHR 0xD0, CHR 0xB0] @ '' '' @ [CHR 0xD0,
     CHR 0xBD, CHR 0xD0, CHR 0xB5, CHR 0xD1, CHR 0x82] @ '' '' @ [CHR 0xD0, CHR 0xB2] @ '' '' @
     [CHR 0xD0, CHR 0xBF, CHR 0xD0, CHR 0xB5, CHR 0xD1, CHR 0x80, CHR 0xD0, CHR 0xB2, CHR 0xD0,
     CHR 0xBE, CHR 0xD0, CHR 0xBC] @ '' '' @ [CHR 0xD1, CHR 0x80, CHR 0xD0, CHR 0xB5, CHR 0xD0,
     CHR 0xBB, CHR 0xD0, CHR 0xB8, CHR 0xD0, CHR 0xB7, CHR 0xD0, CHR 0xB5] @ ''.''"

definition MSG_CLASS_SAVED :: string where
  "MSG_CLASS_SAVED =
     [CHR 0xD0, CHR 0x9A, CHR 0xD0, CHR 0xBB, CHR 0xD0, CHR 0xB0, CHR 0xD1, CHR 0x81, CHR 0xD1,
     CHR 0x81] @ '' '' @ [CHR 0xD1, CHR 0x81, CHR 0xD0, CHR 0xBE, CHR 0xD1, CHR 0x85, CHR 0xD1,
     CHR 0x80, CHR 0xD0, CHR 0xB0, CHR 0xD0, CHR 0xBD, CHR 0xD1, CHR 0x91, CHR 0xD0, CHR 0xBD] @
     ''!''"

definition MSG_CLASS_DONE_1 :: string where
  "MSG_CLASS_DONE_1 =
     [CHR 0xD0, CHR 0x93, CHR 0xD0, CHR 0xBE, CHR 0xD1, CHR 0x82, CHR 0xD0, CHR 0xBE, CHR 0xD0,
     CHR 0xB2, CHR 0xD0, CHR 0xBE] @ '' '' @ [CHR 0xE2, CHR 0x9C, CHR 0x85] @ '' '' @ [CHR 0xD0,
     CHR 0x92, CHR 0xD0, CHR 0xB0, CHR 0xD1, CHR 0x88] @ '' '' @ [CHR 0xD0, CHR 0xBA, CHR 0xD0,
     CHR 0xBB, CHR 0xD0, CHR 0xB0, CHR 0xD1, CHR 0x81, CHR 0xD1, CHR 0x81] @ '': ''"

definition MSG_CLASS_DONE_2 :: string where
  "MSG_CLASS_DONE_2 =
     [CHR 0x0A, CHR 0xD0, CHR 0xA2, CHR 0xD0, CHR 0xB5, CHR 0xD0, CHR 0xBF, CHR 0xD0, CHR 0xB5,
     CHR 0xD1, CHR 0x80, CHR 0xD1, CHR 0x8C] @ '' '' @ [CHR 0xD0, CHR 0xBC, CHR 0xD0, CHR 0xBE,
     CHR 0xD0, CHR 0xB6, CHR 0xD0, CHR 0xBD, CHR 0xD0, CHR 0xBE] @ '' '' @ [CHR 0xD0, CHR 0xBE,
     CHR 0xD1, CHR 0x82, CHR 0xD0, CHR 0xBC, CHR 0xD0, CHR 0xB5, CHR 0xD1, CHR 0x87, CHR 0xD0,
     CHR 0xB0, CHR 0xD1, CHR 0x82, CHR 0xD1, CHR 0x8C] @ '' '' @ [CHR 0xD0, CHR 0xBF, CHR 0xD1,
     CHR 0x80, CHR 0xD0, CHR 0xB8, CHR 0xD0, CHR 0xB2, CHR 0xD1, CHR 0x8B, CHR 0xD1, CHR 0x87,
     CHR 0xD0, CHR 0xBA, CHR 0xD0, CHR 0xB8] @ ''.''"

text \<open>
  The handler gets the sender (\<open>cb.from_user\<close>: id, username, first name) and the
  callback data; aiogram calls it only for data that starts with \<open>class:\<close>. Unpacking the
  split into two names raises \<open>ValueError\<close> on any other number of parts.
\<close>

definition cb_setclass ::
  "string \<Rightarrow> database \<Rightarrow> int \<Rightarrow> string option \<Rightarrow> string option \<Rightarrow> string
     \<Rightarrow> error + database \<times> action list" where
  "cb_setclass now s uid uname fname data =
     (case split_colon 1 data of
        [_, cls] \<Rightarrow>
          if cls \<notin> set CLASSES then Inr (s, [CbAnswer MSG_UNKNOWN_CLASS])
          else
            let s1 = upsert_user now s uid uname fname;
                s2 = set_user_class s1 uid cls
            in Inr (s2, [CbAnswer MSG_CLASS_SAVED,
                         Answer (MSG_CLASS_DONE_1 @ cls @ MSG_CLASS_DONE_2) None main_menu_kb])
      | _ \<Rightarrow> Inl ValueError)"

subsection \<open>The three statistics messages (bot.py, lines 298-357)\<close>

text \<open>The fixed parts of the three texts: the headings (my statistics, class statistics,
  school statistics), the captions (active days, total marks, class, members, active days
  in total, eco-actions in total, top habits) and the prompt of line 312 (first choose a
  class).\<close>

definition MSG_MY_STATS_1 :: string where
  "MSG_MY_STATS_1 =
     [CHR 0xF0, CHR 0x9F, CHR 0x93, CHR 0x8A] @ '' *'' @ [CHR 0xD0, CHR 0x9C, CHR 0xD0, CHR 0xBE,
     CHR 0xD1, CHR 0x8F] @ '' '' @ [CHR 0xD1, CHR 0x81, CHR 0xD1, CHR 0x82, CHR 0xD0, CHR 0xB0,
     CHR 0xD1, CHR 0x82, CHR 0xD0, CHR 0xB8, CHR 0xD1, CHR 0x81, CHR 0xD1, CHR 0x82, CHR 0xD0,
     CHR 0xB8, CHR 0xD0, CHR 0xBA, CHR 0xD0, CHR 0xB0] @ ''*'' @ [CHR 0x0A, CHR 0xD0, CHR 0x90,
     CHR 0xD0, CHR 0xBA, CHR 0xD1, CHR 0x82, CHR 0xD0, CHR 0xB8, CHR 0xD0, CHR 0xB2, CHR 0xD0,
     CHR 0xBD, CHR 0xD1, CHR 0x8B, CHR 0xD1, CHR 0x85] @ '' '' @ [CHR 0xD0, CHR 0xB4, CHR 0xD0,
     CHR 0xBD, CHR 0xD0, CHR 0xB5, CHR 0xD0, CHR 0xB9] @ '': *''"

definition MSG_STATS_TOTAL_MY :: string where
  "MSG_STATS_TOTAL_MY =
     ''*'' @ [CHR 0x0A, CHR 0xD0, CHR 0x92, CHR 0xD1, CHR 0x81, CHR 0xD0, CHR 0xB5, CHR 0xD0,
     CHR 0xB3, CHR 0xD0, CHR 0xBE] @ '' '' @ [CHR 0xD0, CHR 0xBE, CHR 0xD1, CHR 0x82, CHR 0xD0,
     CHR 0xBC, CHR 0xD0, CHR 0xB5, CHR 0xD1, CHR 0x82, CHR 0xD0, CHR 0xBE, CHR 0xD0, CHR 0xBA] @
     '': *''"

definition MSG_STATS_TOP :: string where
  "MSG_STATS_TOP =
     ''*'' @ [CHR 0x0A, CHR 0x0A, CHR 0xD0, CHR 0xA2, CHR 0xD0, CHR 0xBE, CHR 0xD0, CHR 0xBF] @ '' ''
     @ [CHR 0xD0, CHR 0xBF, CHR 0xD1, CHR 0x80, CHR 0xD0, CHR 0xB8, CHR 0xD0, CHR 0xB2, CHR 0xD1,
     CHR 0x8B, CHR 0xD1, CHR 0x87, CHR 0xD0, CHR 0xB5, CHR 0xD0, CHR 0xBA] @ '':'' @ [CHR 0x0A]"

definition MSG_PICK_CLASS_FIRST :: string where
  "MSG_PICK_CLASS_FIRST =
     [CHR 0xD0, CHR 0xA1, CHR 0xD0, CHR 0xBD, CHR 0xD0, CHR 0xB0, CHR 0xD1, CHR 0x87, CHR 0xD0,
     CHR 0xB0, CHR 0xD0, CHR 0xBB, CHR 0xD0, CHR 0xB0] @ '' '' @ [CHR 0xD0, CHR 0xB2, CHR 0xD1,
     CHR 0x8B, CHR 0xD0, CHR 0xB1, CHR 0xD0, CHR 0xB5, CHR 0xD1, CHR 0x80, CHR 0xD0, CHR 0xB8,
     CHR 0xD1, CHR 0x82, CHR 0xD0, CHR 0xB5] @ '' '' @ [CHR 0xD0, CHR 0xBA, CHR 0xD0, CHR 0xBB,
     CHR 0xD0, CHR 0xB0, CHR 0xD1, CHR 0x81, CHR 0xD1, CHR 0x81] @ '':''"

definition MSG_CLASS_STATS_1 :: string where
  "MSG_CLASS_STATS_1 =
     [CHR 0xF0, CHR 0x9F, CHR 0x99, CHR 0x8B] @ '' *'' @ [CHR 0xD0, CHR 0xA1, CHR 0xD1, CHR 0x82,
     CHR 0xD0, CHR 0xB0, CHR 0xD1, CHR 0x82, CHR 0xD0, CHR 0xB8, CHR 0xD1, CHR 0x81, CHR 0xD1,
     CHR 0x82, CHR 0xD0, CHR 0xB8, CHR 0xD0, CHR 0xBA, CHR 0xD0, CHR 0xB0] @ '' '' @ [CHR 0xD0,
     CHR 0xBA, CHR 0xD0, CHR 0xBB, CHR 0xD0, CHR 0xB0, CHR 0xD1, CHR 0x81, CHR 0xD1, CHR 0x81,
     CHR 0xD0, CHR 0xB0] @ ''*'' @ [CHR 0x0A, CHR 0xD0, CHR 0x9A, CHR 0xD0, CHR 0xBB, CHR 0xD0,
     CHR 0xB0, CHR 0xD1, CHR 0x81, CHR 0xD1, CHR 0x81] @ '': *''"

definition MSG_STATS_MEMBERS :: string where
  "MSG_STATS_MEMBERS =
     ''*'' @ [CHR 0x0A, CHR 0xD0, CHR 0xA3, CHR 0xD1, CHR 0x87, CHR 0xD0, CHR 0xB0, CHR 0xD1,
     CHR 0x81, CHR 0xD1, CHR 0x82, CHR 0xD0, CHR 0xBD, CHR 0xD0, CHR 0xB8, CHR 0xD0, CHR 0xBA,
     CHR 0xD0, CHR 0xBE, CHR 0xD0, CHR 0xB2] @ '': *''"

definition MSG_STATS_DAYS :: string where
  "MSG_STATS_DAYS =
     ''*'' @ [CHR 0x0A, CHR 0xD0, CHR 0x90, CHR 0xD0, CHR 0xBA, CHR 0xD1, CHR 0x82, CHR 0xD0,
     CHR 0xB8, CHR 0xD0, CHR 0xB2, CHR 0xD0, CHR 0xBD, CHR 0xD1, CHR 0x8B, CHR 0xD1, CHR 0x85] @
     '' '' @ [CHR 0xD0, CHR 0xB4, CHR 0xD0, CHR 0xBD, CHR 0xD0, CHR 0xB5, CHR 0xD0, CHR 0xB9] @
     '' ('' @ [CHR 0xD1, CHR 0x81, CHR 0xD1, CHR 0x83, CHR 0xD0, CHR 0xBC, CHR 0xD0, CHR 0xBC,
     CHR 0xD0, CHR 0xB0, CHR 0xD1, CHR 0x80, CHR 0xD0, CHR 0xBD, CHR 0xD0, CHR 0xBE] @ ''): *''"

definition MSG_STATS_TOTAL :: string where
  "MSG_STATS_TOTAL =
     ''*'' @ [CHR 0x0A, CHR 0xD0, CHR 0x92, CHR 0xD1, CHR 0x81, CHR 0xD0, CHR 0xB5, CHR 0xD0,
     CHR 0xB3, CHR 0xD0, CHR 0xBE] @ '' '' @ [CHR 0xD1, CHR 0x8D, CHR 0xD0, CHR 0xBA, CHR 0xD0,
     CHR 0xBE] @ ''-'' @ [CHR 0xD0, CHR 0xB4, CHR 0xD0, CHR 0xB5, CHR 0xD0, CHR 0xB9, CHR 0xD1,
     CHR 0x81, CHR 0xD1, CHR 0x82, CHR 0xD0, CHR 0xB2, CHR 0xD0, CHR 0xB8, CHR 0xD0, CHR 0xB9] @
     '': *''"

definition MSG_SCHOOL_STATS_1 :: string where
  "MSG_SCHOOL_STATS_1 =
     [CHR 0xF0, CHR 0x9F, CHR 0x8F, CHR 0xAB] @ '' *'' @ [CHR 0xD0, CHR 0xA1, CHR 0xD1, CHR 0x82,
     CHR 0xD0, CHR 0xB0, CHR 0xD1, CHR 0x82, CHR 0xD0, CHR 0xB8, CHR 0xD1, CHR 0x81, CHR 0xD1,
     CHR 0x82, CHR 0xD0, CHR 0xB8, CHR 0xD0, CHR 0xBA, CHR 0xD0, CHR 0xB0] @ '' '' @ [CHR 0xD1,
     CHR 0x88, CHR 0xD0, CHR 0xBA, CHR 0xD0, CHR 0xBE, CHR 0xD0, CHR 0xBB, CHR 0xD1, CHR 0x8B] @
     ''*'' @ [CHR 0x0A, CHR 0xD0, CHR 0xA3, CHR 0xD1, CHR 0x87, CHR 0xD0, CHR 0xB0, CHR 0xD1,
     CHR 0x81, CHR 0xD1, CHR 0x82, CHR 0xD0, CHR 0xBD, CHR 0xD0, CHR 0xB8, CHR 0xD0, CHR 0xBA,
     CHR 0xD0, CHR 0xBE, CHR 0xD0, CHR 0xB2] @ '': *''"

definition MSG_STATS_TOTAL_END :: string where
  "MSG_STATS_TOTAL_END =
     ''*'' @ [CHR 0x0A]"

definition MSG_STATS_TOP_SCHOOL :: string where
  "MSG_STATS_TOP_SCHOOL =
     [CHR 0x0A, CHR 0x0A, CHR 0xD0, CHR 0xA2, CHR 0xD0, CHR 0xBE, CHR 0xD0, CHR 0xBF] @ '' '' @
     [CHR 0xD0, CHR 0xBF, CHR 0xD1, CHR 0x80, CHR 0xD0, CHR 0xB8, CHR 0xD0, CHR 0xB2, CHR 0xD1,
     CHR 0x8B, CHR 0xD1, CHR 0x87, CHR 0xD0, CHR 0xB5, CHR 0xD0, CHR 0xBA] @ '':'' @ [CHR 0x0A]"

definition send_my_stats :: "database \<Rightarrow> int \<Rightarrow> action list" where
  "send_my_stats s uid =
     (case get_user_stats s uid of (total_count, days, by_habit) \<Rightarrow>
        [Answer (MSG_MY_STATS_1 @ str_nat days @ MSG_STATS_TOTAL_MY @ str_nat total_count
                 @ MSG_STATS_TOP @ format_top_habits by_habit 3)
           (Some ''Markdown'') main_menu_kb])"

definition send_class_stats :: "database \<Rightarrow> int \<Rightarrow> action list" where
  "send_class_stats s uid =
     (case get_user_class s uid of
        None \<Rightarrow> [Answer MSG_PICK_CLASS_FIRST None class_pick_kb]
      | Some cls \<Rightarrow>
          if cls = [] then [Answer MSG_PICK_CLASS_FIRST None class_pick_kb]
          else
            (case get_group_stats s (Where_Class cls) of
               (users_count, total_actions, days_count, by_habit) \<Rightarrow>
                 [Answer (MSG_CLASS_STATS_1 @ cls @ MSG_STATS_MEMBERS @ str_nat users_count
                          @ MSG_STATS_DAYS @ str_nat days_count
                          @ MSG_STATS_TOTAL @ str_nat total_actions
                          @ MSG_STATS_TOP @ format_top_habits by_habit 3)
                    (Some ''Markdown'') main_menu_kb]))"

text \<open>
  The seven day strings of lines 332-334. \<open>today\<close> is \<open>date.today().toordinal()\<close>, read
  when the handler runs, and \<open>isoformat n\<close> stands for \<open>date.fromordinal(n).isoformat()\<close>, a
  function of the standard library. \<open>date.fromordinal\<close> raises \<open>ValueError\<close> below
  ordinal 1, that is when \<open>today\<close> is one of the first six days of year 1.
\<close>

definition days_list :: "(int \<Rightarrow> string) \<Rightarrow> int \<Rightarrow> error + string list" where
  "days_list isoformat today =
     (let from_day = today - 6 in
      if from_day < 1 then Inl ValueError
      else Inr (map (\<lambda>i. isoformat (from_day + int i)) [0..<7]))"

text \<open>The query of lines 336-343: the check-ins of registered users whose day is one of
  the given strings (\<open>window_classes\<close> is the class column of these joined rows), counted
  per class of the user, largest count first. Users without a class form the group of
  \<open>NULL\<close>, here \<open>None\<close>.\<close>

definition window_classes :: "database \<Rightarrow> string list \<Rightarrow> string option list" where
  "window_classes s days =
     map (\<lambda>(c, r). class_name r) (filter (\<lambda>((u, d, h), r). d \<in> set days) (join_users s))"

definition window_rows :: "database \<Rightarrow> string list \<Rightarrow> (string option \<times> nat) list" where
  "window_rows s days = group_count_desc (window_classes s days)"

text \<open>The texts of lines 344 (no data for the last 7 days) and 346 (the most active
  class in 7 days, with its number of marks).\<close>

definition NO_DATA_7_DAYS :: string where
  "NO_DATA_7_DAYS =
     [CHR 0xD0, CHR 0x9D, CHR 0xD0, CHR 0xB5, CHR 0xD1, CHR 0x82] @ '' '' @ [CHR 0xD0, CHR 0xB4,
     CHR 0xD0, CHR 0xB0, CHR 0xD0, CHR 0xBD, CHR 0xD0, CHR 0xBD, CHR 0xD1, CHR 0x8B, CHR 0xD1,
     CHR 0x85] @ '' '' @ [CHR 0xD0, CHR 0xB7, CHR 0xD0, CHR 0xB0] @ '' '' @ [CHR 0xD0, CHR 0xBF,
     CHR 0xD0, CHR 0xBE, CHR 0xD1, CHR 0x81, CHR 0xD0, CHR 0xBB, CHR 0xD0, CHR 0xB5, CHR 0xD0,
     CHR 0xB4, CHR 0xD0, CHR 0xBD, CHR 0xD0, CHR 0xB8, CHR 0xD0, CHR 0xB5] @ '' 7 '' @ [CHR 0xD0,
     CHR 0xB4, CHR 0xD0, CHR 0xBD, CHR 0xD0, CHR 0xB5, CHR 0xD0, CHR 0xB9] @ ''.''"

definition MSG_TOP_CLASS_1 :: string where
  "MSG_TOP_CLASS_1 =
     [CHR 0xD0, CHR 0xA1, CHR 0xD0, CHR 0xB0, CHR 0xD0, CHR 0xBC, CHR 0xD1, CHR 0x8B, CHR 0xD0,
     CHR 0xB9] @ '' '' @ [CHR 0xD0, CHR 0xB0, CHR 0xD0, CHR 0xBA, CHR 0xD1, CHR 0x82, CHR 0xD0,
     CHR 0xB8, CHR 0xD0, CHR 0xB2, CHR 0xD0, CHR 0xBD, CHR 0xD1, CHR 0x8B, CHR 0xD0, CHR 0xB9] @
     '' '' @ [CHR 0xD0, CHR 0xBA, CHR 0xD0, CHR 0xBB, CHR 0xD0, CHR 0xB0, CHR 0xD1, CHR 0x81,
     CHR 0xD1, CHR 0x81] @ '' '' @ [CHR 0xD0, CHR 0xB7, CHR 0xD0, CHR 0xB0] @ '' 7 '' @ [CHR 0xD0,
     CHR 0xB4, CHR 0xD0, CHR 0xBD, CHR 0xD0, CHR 0xB5, CHR 0xD0, CHR 0xB9] @ '': *''"

definition MSG_TOP_CLASS_2 :: string where
  "MSG_TOP_CLASS_2 =
     ''* ('' @ [CHR 0xD0, CHR 0xBE, CHR 0xD1, CHR 0x82, CHR 0xD0, CHR 0xBC, CHR 0xD0, CHR 0xB5,
     CHR 0xD1, CHR 0x82, CHR 0xD0, CHR 0xBE, CHR 0xD0, CHR 0xBA] @ '': *''"

definition MSG_TOP_CLASS_3 :: string where
  "MSG_TOP_CLASS_3 =
     ''*)''"

text \<open>Lines 344-346: the placeholder stays unless there is a first row and its class is
  true in Python's sense (neither \<open>None\<close> nor empty).\<close>

definition top_class_line :: "(string option \<times> nat) list \<Rightarrow> string" where
  "top_class_line rows =
     (case rows of
        [] \<Rightarrow> NO_DATA_7_DAYS
      | (cls, c) # _ \<Rightarrow>
          if truthy cls
          then MSG_TOP_CLASS_1 @ the cls @ MSG_TOP_CLASS_2 @ str_nat c @ MSG_TOP_CLASS_3
          else NO_DATA_7_DAYS)"

definition send_school_stats :: "(int \<Rightarrow> string) \<Rightarrow> database \<Rightarrow> int \<Rightarrow> error + action list" where
  "send_school_stats isoformat s today =
     (case get_group_stats s Where_None of
        (users_count, total_actions, days_count, by_habit) \<Rightarrow>
          (case days_list isoformat today of
             Inl e \<Rightarrow> Inl e
           | Inr days \<Rightarrow>
               Inr [Answer (MSG_SCHOOL_STATS_1 @ str_nat users_count
                            @ MSG_STATS_DAYS @ str_nat days_count
                            @ MSG_STATS_TOTAL @ str_nat total_actions @ MSG_STATS_TOTAL_END
                            @ top_class_line (window_rows s days)
                            @ MSG_STATS_TOP_SCHOOL @ format_top_habits by_habit 3)
                      (Some ''Markdown'') main_menu_kb]))"

subsection \<open>Toggling a habit (bot.py, lines 377-387)\<close>

text \<open>The acknowledgements of line 387: marked (with a check mark), removed (with a
  no-entry sign).\<close>

definition MSG_MARKED :: string where
  "MSG_MARKED =
     [CHR 0xD0, CHR 0x9E, CHR 0xD1, CHR 0x82, CHR 0xD0, CHR 0xBC, CHR 0xD0, CHR 0xB5, CHR 0xD1,
     CHR 0x87, CHR 0xD0, CHR 0xB5, CHR 0xD0, CHR 0xBD, CHR 0xD0, CHR 0xBE] @ '' '' @ [CHR 0xE2,
     CHR 0x9C, CHR 0x85]"

definition MSG_UNMARKED :: string where
  "MSG_UNMARKED =
     [CHR 0xD0, CHR 0xA1, CHR 0xD0, CHR 0xBD, CHR 0xD1, CHR 0x8F, CHR 0xD1, CHR 0x82, CHR 0xD0,
     CHR 0xBE] @ '' '' @ [CHR 0xE2, CHR 0x9B, CHR 0x94]"

definition cb_toggle :: "database \<Rightarrow> int \<Rightarrow> string \<Rightarrow> error + database \<times> action list" where
  "cb_toggle s uid data =
     (case split_colon 2 data of
        [_, day_str, key] \<Rightarrow>
          let selected = get_user_day_habits s uid day_str;
              new_state = (key \<notin> selected);
              s1 = set_habit s uid day_str key new_state
          in Inr (s1, [EditReplyMarkup (habits_kb s1 uid day_str),
                       CbAnswer (if new_state then MSG_MARKED else MSG_UNMARKED)])
      | _ \<Rightarrow> Inl ValueError)"

subsection \<open>The evening reminder (bot.py, lines 402-420)\<close>

text \<open>The texts of lines 410 (choose a class to take part), 415 (evening eco check-in,
  with a crescent moon; mark the actions for today, the date in brackets) and the
  warning of line 420 (could not send the message to user ..., then the error).\<close>

definition MSG_PING_PICK_CLASS :: string where
  "MSG_PING_PICK_CLASS =
     [CHR 0xD0, CHR 0x92, CHR 0xD1, CHR 0x8B, CHR 0xD0, CHR 0xB1, CHR 0xD0, CHR 0xB5, CHR 0xD1,
     CHR 0x80, CHR 0xD0, CHR 0xB8, CHR 0xD1, CHR 0x82, CHR 0xD0, CHR 0xB5] @ '' '' @ [CHR 0xD0,
     CHR 0xBA, CHR 0xD0, CHR 0xBB, CHR 0xD0, CHR 0xB0, CHR 0xD1, CHR 0x81, CHR 0xD1, CHR 0x81] @
     '' '' @ [CHR 0xD0, CHR 0xB4, CHR 0xD0, CHR 0xBB, CHR 0xD1, CHR 0x8F] @ '' '' @ [CHR 0xD1,
     CHR 0x83, CHR 0xD1, CHR 0x87, CHR 0xD0, CHR 0xB0, CHR 0xD1, CHR 0x81, CHR 0xD1, CHR 0x82,
     CHR 0xD0, CHR 0xB8, CHR 0xD1, CHR 0x8F] @ '':''"

definition MSG_PING_1 :: string where
  "MSG_PING_1 =
     [CHR 0xD0, CHR 0x92, CHR 0xD0, CHR 0xB5, CHR 0xD1, CHR 0x87, CHR 0xD0, CHR 0xB5, CHR 0xD1,
     CHR 0x80, CHR 0xD0, CHR 0xBD, CHR 0xD0, CHR 0xB8, CHR 0xD0, CHR 0xB9] @ '' '' @ [CHR 0xD1,
     CHR 0x8D, CHR 0xD0, CHR 0xBA, CHR 0xD0, CHR 0xBE] @ ''-'' @ [CHR 0xD1, CHR 0x87, CHR 0xD0,
     CHR 0xB5, CHR 0xD0, CHR 0xBA] @ ''-'' @ [CHR 0xD0, CHR 0xB8, CHR 0xD0, CHR 0xBD] @ '' '' @
     [CHR 0xF0, CHR 0x9F, CHR 0x8C, CHR 0x99, CHR 0x0A, CHR 0xD0, CHR 0x9E, CHR 0xD1, CHR 0x82,
     CHR 0xD0, CHR 0xBC, CHR 0xD0, CHR 0xB5, CHR 0xD1, CHR 0x82, CHR 0xD1, CHR 0x8C, CHR 0xD1,
     CHR 0x82, CHR 0xD0, CHR 0xB5] @ '' '' @ [CHR 0xD0, CHR 0xB4, CHR 0xD0, CHR 0xB5, CHR 0xD0,
     CHR 0xB9, CHR 0xD1, CHR 0x81, CHR 0xD1, CHR 0x82, CHR 0xD0, CHR 0xB2, CHR 0xD0, CHR 0xB8,
     CHR 0xD1, CHR 0x8F] @ '' '' @ [CHR 0xD0, CHR 0xB7, CHR 0xD0, CHR 0xB0] @ '' '' @ [CHR 0xD1,
     CHR 0x81, CHR 0xD0, CHR 0xB5, CHR 0xD0, CHR 0xB3, CHR 0xD0, CHR 0xBE, CHR 0xD0, CHR 0xB4,
     CHR 0xD0, CHR 0xBD, CHR 0xD1, CHR 0x8F] @ '' (''"

definition MSG_PING_2 :: string where
  "MSG_PING_2 =
     ''):''"

definition LOG_SEND_FAILED_1 :: string where
  "LOG_SEND_FAILED_1 =
     [CHR 0xD0, CHR 0x9D, CHR 0xD0, CHR 0xB5] @ '' '' @ [CHR 0xD1, CHR 0x83, CHR 0xD0, CHR 0xB4,
     CHR 0xD0, CHR 0xB0, CHR 0xD0, CHR 0xBB, CHR 0xD0, CHR 0xBE, CHR 0xD1, CHR 0x81, CHR 0xD1,
     CHR 0x8C] @ '' '' @ [CHR 0xD0, CHR 0xBE, CHR 0xD1, CHR 0x82, CHR 0xD0, CHR 0xBF, CHR 0xD1,
     CHR 0x80, CHR 0xD0, CHR 0xB0, CHR 0xD0, CHR 0xB2, CHR 0xD0, CHR 0xB8, CHR 0xD1, CHR 0x82,
     CHR 0xD1, CHR 0x8C] @ '' '' @ [CHR 0xD1, CHR 0x81, CHR 0xD0, CHR 0xBE, CHR 0xD0, CHR 0xBE,
     CHR 0xD0, CHR 0xB1, CHR 0xD1, CHR 0x89, CHR 0xD0, CHR 0xB5, CHR 0xD0, CHR 0xBD, CHR 0xD0,
     CHR 0xB8, CHR 0xD0, CHR 0xB5] @ '' '' @ [CHR 0xD0, CHR 0xBF, CHR 0xD0, CHR 0xBE, CHR 0xD0,
     CHR 0xBB, CHR 0xD1, CHR 0x8C, CHR 0xD0, CHR 0xB7, CHR 0xD0, CHR 0xBE, CHR 0xD0, CHR 0xB2,
     CHR 0xD0, CHR 0xB0, CHR 0xD1, CHR 0x82, CHR 0xD0, CHR 0xB5, CHR 0xD0, CHR 0xBB, CHR 0xD1,
     CHR 0x8E] @ '' ''"

text \<open>
  The transport is a parameter: \<open>send uid msg kb\<close> is \<open>None\<close> when \<open>bot.send_message\<close>
  returns and \<open>Some e\<close> when it raises an exception whose text is \<open>e\<close>. \<open>try_send\<close> is the
  \<open>try ... except Exception\<close> around one send: the attempt is recorded, and a failure
  adds the warning and nothing else.
\<close>

type_synonym transport = "int \<Rightarrow> string \<Rightarrow> markup \<Rightarrow> string option"

definition try_send :: "transport \<Rightarrow> int \<Rightarrow> string \<Rightarrow> markup \<Rightarrow> action list" where
  "try_send send uid msg kb =
     SendMessage uid msg kb #
       (case send uid msg kb of
          None \<Rightarrow> []
        | Some e \<Rightarrow> [LogWarning (LOG_SEND_FAILED_1 @ str_int uid @ '': '' @ e)])"

text \<open>The loop over \<open>users\<close>; the store is the one read when the run starts (no other
  handler writes during the run).\<close>

fun ping_users :: "transport \<Rightarrow> database \<Rightarrow> string \<Rightarrow> int list \<Rightarrow> action list" where
  "ping_users send s day_str [] = []"
| "ping_users send s day_str (uid # rest) =
     (let cls = get_user_class s uid in
      if \<not> truthy cls then try_send send uid MSG_PING_PICK_CLASS class_pick_kb
      else try_send send uid (MSG_PING_1 @ day_str @ MSG_PING_2) (habits_kb s uid day_str))
     @ ping_users send s day_str rest"

text \<open>\<open>day_str\<close> stands for \<open>date.today().isoformat()\<close>, read once at the start.\<close>

definition evening_ping :: "transport \<Rightarrow> database \<Rightarrow> string \<Rightarrow> action list" where
  "evening_ping send s day_str = ping_users send s day_str (get_all_users s)"

section \<open>Invariants of the store and reading a trace\<close>

text \<open>
  The two primary keys: no two user rows with the same id, no check-in row twice. SQLite
  enforces both; the empty store has them and every write of the program keeps them.
\<close>

definition pk_ok :: "database \<Rightarrow> bool" where
  "pk_ok s = (distinct (map user_id (users s)) \<and> distinct (checkins s))"

text \<open>
  Every class stored is one of \<open>CLASSES\<close>: \<open>set_user_class\<close> is only called by
  \<open>cb_setclass\<close>, after its membership test.
\<close>

definition classes_ok :: "database \<Rightarrow> bool" where
  "classes_ok s = list_all (\<lambda>r. class_name r = None \<or> class_name r \<in> Some ` set CLASSES) (users s)"

text \<open>Reading a trace: the class prompts, the check-in prompts for a store and a day,
  and the warnings.\<close>

fun is_class_prompt :: "action \<Rightarrow> bool" where
  "is_class_prompt (SendMessage uid msg kb) = (msg = MSG_PING_PICK_CLASS \<and> kb = class_pick_kb)"
| "is_class_prompt _ = False"

fun is_checkin_prompt :: "database \<Rightarrow> string \<Rightarrow> action \<Rightarrow> bool" where
  "is_checkin_prompt s day_str (SendMessage uid msg kb) =
     (msg = MSG_PING_1 @ day_str @ MSG_PING_2 \<and> kb = habits_kb s uid day_str)"
| "is_checkin_prompt s day_str _ = False"

fun is_warning :: "action \<Rightarrow> bool" where
  "is_warning (LogWarning w) = True"
| "is_warning _ = False"

text \<open>What the run does for the user of one row.\<close>

definition ping_row :: "transport \<Rightarrow> database \<Rightarrow> string \<Rightarrow> user_row \<Rightarrow> action list" where
  "ping_row send s day_str r =
     (if class_name r = None then try_send send (user_id r) MSG_PING_PICK_CLASS class_pick_kb
      else try_send send (user_id r) (MSG_PING_1 @ day_str @ MSG_PING_2)
             (habits_kb s (user_id r) day_str))"

section \<open>Example data\<close>

text \<open>An example store: user 1 has no class, users 2 and 3 have one, user 2 has marked
  one habit on 1 May 2024; and a transport on which every send to user 2 fails.\<close>

definition example_db :: database where
  "example_db =
     \<lparr>users =
        [\<lparr>user_id = 1, username = None, first_name = Some ''Ann'', class_name = None,
          joined_at = ''2024-04-30T18:00:00''\<rparr>,
         \<lparr>user_id = 2, username = Some ''bob'', first_name = Some ''Bob'',
          class_name = Some CLASS_6V, joined_at = ''2024-04-30T18:05:00''\<rparr>,
         \<lparr>user_id = 3, username = None, first_name = Some ''Eve'',
          class_name = Some CLASS_6G, joined_at = ''2024-04-30T18:10:00''\<rparr>],
      checkins = [(2, ''2024-05-01'', ''lights_off'')]\<rparr>"

definition example_transport :: transport where
  "example_transport uid msg kb = (if uid = 2 then Some ''Forbidden'' else None)"

text \<open>A second example store: the users of \<open>example_db\<close>, with seven check-ins over two
  days, the last one by an id that has no user row.\<close>

definition example_marks_db :: database where
  "example_marks_db =
     example_db\<lparr>checkins :=
       [(1, ''2024-05-01'', ''lights_off''),
        (1, ''2024-05-01'', ''no_bag''),
        (1, ''2024-04-30'', ''lights_off''),
        (2, ''2024-05-01'', ''lights_off''),
        (2, ''2024-04-30'', ''no_cup''),
        (3, ''2024-05-01'', ''lights_off''),
        (9, ''2024-05-01'', ''eco_move'')]\<rparr>"

text \<open>A third example store, with no two equal counts: the users of \<open>example_db\<close>; in
  the week ending 1 May 2024 user 1 (no class) has three check-ins, user 2 two and user 3
  one, four of them for one habit and two for another; the last row has no user row.\<close>

definition example_window_db :: database where
  "example_window_db =
     example_db\<lparr>checkins :=
       [(1, ''2024-05-01'', ''lights_off''),
        (1, ''2024-05-01'', ''no_bag''),
        (1, ''2024-04-30'', ''lights_off''),
        (2, ''2024-05-01'', ''lights_off''),
        (2, ''2024-04-30'', ''no_bag''),
        (3, ''2024-05-01'', ''lights_off''),
        (9, ''2024-05-01'', ''eco_move'')]\<rparr>"

text \<open>A fourth example store, with a tie: the users of \<open>example_db\<close>; on 1 May 2024
  user 2 (class 6V) and user 1 (no class) have one check-in each.\<close>

definition example_tie_db :: database where
  "example_tie_db =
     example_db\<lparr>checkins :=
       [(2, ''2024-05-01'', ''lights_off''),
        (1, ''2024-05-01'', ''lights_off'')]\<rparr>"

text \<open>A table of \<open>date.fromordinal(n).isoformat()\<close> for 25 April to 8 May 2024.\<close>

definition example_isoformat :: "int \<Rightarrow> string" where
  "example_isoformat n =
     (case map_of
        [(739001, ''2024-04-25''), (739002, ''2024-04-26''), (739003, ''2024-04-27''),
         (739004, ''2024-04-28''), (739005, ''2024-04-29''), (739006, ''2024-04-30''),
         (739007, ''2024-05-01''), (739008, ''2024-05-02''), (739009, ''2024-05-03''),
         (739010, ''2024-05-04''), (739011, ''2024-05-05''), (739012, ''2024-05-06''),
         (739013, ''2024-05-07''), (739014, ''2024-05-08'')] n of
        Some d \<Rightarrow> d
      | None \<Rightarrow> [])"

section \<open>Facts about the program\<close>

lemma users_set_habit: "users (set_habit s uid day k b) = users s"
  by (simp add: set_habit_def)

lemma set_checkins_set_habit:
  "set (checkins (set_habit s uid day k b)) =
     (if b then insert (uid, day, k) (set (checkins s)) else set (checkins s) - {(uid, day, k)})"
  by (auto simp: set_habit_def)

lemma get_user_day_habits_iff:
  "k \<in> get_user_day_habits s uid day \<longleftrightarrow> (uid, day, k) \<in> set (checkins s)"
  by (force simp: get_user_day_habits_def)

lemma find_upsert_row_same:
  "find (\<lambda>r. user_id r = user_id new) rs = Some r \<Longrightarrow>
   find (\<lambda>r. user_id r = user_id new) (upsert_row new rs) =
     Some (r\<lparr>username := username new, first_name := first_name new\<rparr>)"
  by (induction rs) (auto split: if_splits)

lemma find_upsert_row_other:
  "v \<noteq> user_id new \<Longrightarrow>
   find (\<lambda>r. user_id r = v) (upsert_row new rs) = find (\<lambda>r. user_id r = v) rs"
  by (induction rs) auto

lemma ids_upsert_row_present:
  "user_id new \<in> user_id ` set rs \<Longrightarrow> map user_id (upsert_row new rs) = map user_id rs"
  by (induction rs) auto

lemma ids_upsert_row_absent:
  "user_id new \<notin> user_id ` set rs \<Longrightarrow> upsert_row new rs = rs @ [new]"
  by (induction rs) auto

lemma find_user_Some_mem: "find_user s uid = Some r \<Longrightarrow> r \<in> set (users s) \<and> user_id r = uid"
  by (auto simp: find_user_def find_Some_iff)

lemma find_user_None_iff: "find_user s uid = None \<longleftrightarrow> uid \<notin> user_id ` set (users s)"
  by (auto simp: find_user_def find_None_iff)

lemma split_colon_class: "split_colon 1 (''class:'' @ cls) = [''class'', cls]"
  by (simp add: numeral_eq_Suc)

lemma split_colon_toggle:
  assumes "CHR '':'' \<notin> set day"
  shows "split_colon 2 (''toggle:'' @ day @ '':'' @ key) = [''toggle'', day, key]"
proof -
  have a: "takeWhile (\<lambda>c. c \<noteq> CHR '':'') (day @ CHR '':'' # key) = day"
    using assms by (induction day) auto
  have b: "dropWhile (\<lambda>c. c \<noteq> CHR '':'') (day @ CHR '':'' # key) = CHR '':'' # key"
    using assms by (induction day) auto
  show ?thesis
    by (simp add: numeral_eq_Suc a b)
qed

lemma pk_ok_init_db: "pk_ok init_db \<and> classes_ok init_db"
  by (simp add: pk_ok_def classes_ok_def init_db_def)

lemma distinct_ids_upsert_row:
  "distinct (map user_id rs) \<Longrightarrow> distinct (map user_id (upsert_row new rs))"
  by (cases "user_id new \<in> user_id ` set rs")
     (simp_all add: ids_upsert_row_present ids_upsert_row_absent)

lemma pk_ok_upsert_user: "pk_ok s \<Longrightarrow> pk_ok (upsert_user now s uid uname fname)"
  by (simp add: pk_ok_def upsert_user_def distinct_ids_upsert_row)

lemma classes_ok_upsert_row:
  "list_all (\<lambda>r. class_name r = None \<or> class_name r \<in> Some ` set CLASSES) rs \<Longrightarrow>
   class_name new = None \<Longrightarrow>
   list_all (\<lambda>r. class_name r = None \<or> class_name r \<in> Some ` set CLASSES) (upsert_row new rs)"
  by (induction rs) auto

lemma classes_ok_upsert_user: "classes_ok s \<Longrightarrow> classes_ok (upsert_user now s uid uname fname)"
  by (simp add: classes_ok_def upsert_user_def classes_ok_upsert_row)

lemma ids_set_user_class:
  "map user_id (map (\<lambda>r. if user_id r = uid then r\<lparr>class_name := Some cls\<rparr> else r) rs)
     = map user_id rs"
  by (induction rs) auto

lemma pk_ok_set_user_class: "pk_ok s \<Longrightarrow> pk_ok (set_user_class s uid cls)"
proof -
  have u: "map user_id (users (set_user_class s uid cls)) = map user_id (users s)"
    using ids_set_user_class [of uid cls "users s"] by (simp add: set_user_class_def del: map_map)
  have c: "checkins (set_user_class s uid cls) = checkins s"
    by (simp add: set_user_class_def)
  show "pk_ok s \<Longrightarrow> pk_ok (set_user_class s uid cls)"
    unfolding pk_ok_def u c .
qed

lemma classes_ok_set_user_class:
  "classes_ok s \<Longrightarrow> cls \<in> set CLASSES \<Longrightarrow> classes_ok (set_user_class s uid cls)"
  by (auto simp: classes_ok_def set_user_class_def list_all_iff)

lemma pk_ok_set_habit: "pk_ok s \<Longrightarrow> pk_ok (set_habit s uid day k b)"
  by (simp add: pk_ok_def set_habit_def)

lemma classes_ok_set_habit: "classes_ok s \<Longrightarrow> classes_ok (set_habit s uid day k b)"
  by (simp add: classes_ok_def set_habit_def)

lemma cb_setclass_keeps_invariants:
  "pk_ok s \<Longrightarrow> classes_ok s \<Longrightarrow> cb_setclass now s uid uname fname data = Inr (s', acts) \<Longrightarrow>
   pk_ok s' \<and> classes_ok s'"
  by (auto simp: cb_setclass_def Let_def pk_ok_set_user_class pk_ok_upsert_user
        classes_ok_set_user_class classes_ok_upsert_user
      split: list.splits if_splits)

lemma cb_toggle_keeps_invariants:
  "pk_ok s \<Longrightarrow> classes_ok s \<Longrightarrow> cb_toggle s uid data = Inr (s', acts) \<Longrightarrow>
   pk_ok s' \<and> classes_ok s'"
  by (auto simp: cb_toggle_def Let_def pk_ok_set_habit classes_ok_set_habit
      split: list.splits)

lemma get_user_class_row:
  "distinct (map user_id rs) \<Longrightarrow> r \<in> set rs \<Longrightarrow>
   find (\<lambda>x. user_id x = user_id r) rs = Some r"
  by (induction rs) force+

lemma truthy_class:
  "class_name r = None \<or> class_name r \<in> Some ` set CLASSES \<Longrightarrow>
   truthy (class_name r) = (class_name r \<noteq> None)"
  by (auto simp: truthy_def CLASSES_def CLASS_6V_def CLASS_6G_def)

lemma ping_texts_differ: "MSG_PING_PICK_CLASS \<noteq> MSG_PING_1 @ day_str @ MSG_PING_2"
  by (simp add: MSG_PING_PICK_CLASS_def MSG_PING_1_def)

lemma ping_users_rows:
  assumes "distinct (map user_id (users s))"
    and "list_all (\<lambda>r. class_name r = None \<or> class_name r \<in> Some ` set CLASSES) (users s)"
    and "set rs \<subseteq> set (users s)"
  shows "ping_users send s day_str (map user_id rs) = concat (map (ping_row send s day_str) rs)"
  using assms(3)
proof (induction rs)
  case Nil
  then show ?case by simp
next
  case (Cons r rs)
  then have mem: "r \<in> set (users s)" by simp
  have cls: "get_user_class s (user_id r) = class_name r"
    using get_user_class_row [OF assms(1) mem] by (simp add: get_user_class_def find_user_def)
  have "class_name r = None \<or> class_name r \<in> Some ` set CLASSES"
    using assms(2) mem by (simp add: list_all_iff)
  then have "truthy (class_name r) = (class_name r \<noteq> None)"
    by (rule truthy_class)
  then show ?case
    using Cons cls by (simp add: ping_row_def)
qed

lemma count_class_prompts:
  "length (filter is_class_prompt (concat (map (ping_row send s day_str) rs)))
     = length (filter (\<lambda>r. class_name r = None) rs)"
  by (induction rs)
     (auto simp: ping_row_def try_send_def ping_texts_differ [symmetric] split: option.splits)

lemma count_checkin_prompts:
  "length (filter (is_checkin_prompt s day_str) (concat (map (ping_row send s day_str) rs)))
     = length (filter (\<lambda>r. class_name r \<noteq> None) rs)"
  by (induction rs)
     (auto simp: ping_row_def try_send_def ping_texts_differ split: option.splits)

lemma count_warnings:
  "length (filter is_warning (concat (map (ping_row send s day_str) rs)))
     = length (filter (\<lambda>r. \<exists>a \<in> set (ping_row send s day_str r). is_warning a) rs)"
  by (induction rs) (auto simp: ping_row_def try_send_def split: option.splits)

lemma length_filter_complement:
  "length (filter (\<lambda>x. \<not> P x) xs) = length xs - length (filter P xs)"
  using sum_length_filter_compl [of P xs] by simp

lemma habits_kb_rows:
  "habits_kb s uid day_str =
     InlineKeyboardMarkup
       (map (\<lambda>(key, label).
              [InlineKeyboardButton
                 ((if (uid, day_str, key) \<in> set (checkins s) then MARK_ON else MARK_OFF) @ label)
                 (''toggle:'' @ day_str @ '':'' @ key)]) HABITS
        @ [[InlineKeyboardButton BTN_DONE (''done:'' @ day_str)]])"
  by (simp add: habits_kb_def Let_def get_user_day_habits_iff)

lemma set_group_count_desc:
  "set (group_count_desc ks) = (\<lambda>k. (k, count_list ks k)) ` set ks"
  by (simp add: group_count_desc_def)

lemma length_group_count_desc: "length (group_count_desc ks) = card (set ks)"
  by (simp add: group_count_desc_def length_remdups_card_conv)

lemma group_count_desc_Nil_iff: "group_count_desc ks = [] \<longleftrightarrow> ks = []"
  using length_group_count_desc [of ks] by (auto simp: card_eq_0_iff)

lemma keys_group_count_desc: "distinct (map fst (group_count_desc ks))"
proof -
  let ?xs = "map (\<lambda>k. (k, count_list ks k)) (remdups ks)"
  have "mset (map fst (group_count_desc ks)) = image_mset fst (mset ?xs)"
    unfolding group_count_desc_def by (simp only: mset_map mset_sort)
  also have "\<dots> = mset (map fst ?xs)"
    by (simp only: mset_map)
  also have "map fst ?xs = remdups ks"
    by (simp add: comp_def)
  finally show ?thesis
    using mset_eq_imp_distinct_iff [of "map fst (group_count_desc ks)" "remdups ks"] by simp
qed

lemma counts_descending:
  "sorted (map (\<lambda>(k, c). - int c) xs) \<Longrightarrow> sorted_wrt (\<lambda>a b. b \<le> a) (map snd xs)"
  by (induction xs) (auto simp: case_prod_beta)

lemma sorted_group_count_desc: "sorted_wrt (\<lambda>a b. b \<le> a) (map snd (group_count_desc ks))"
  by (rule counts_descending) (simp add: group_count_desc_def)

lemma counts_positive: "(k, c) \<in> set (group_count_desc ks) \<Longrightarrow> 0 < c"
  using count_list_0_iff [of ks k] by (auto simp: set_group_count_desc)

lemma hd_sort_key_least:
  assumes "x \<in> set xs" and "\<forall>y \<in> set xs. y \<noteq> x \<longrightarrow> f x < f y"
  shows "hd (sort_key f xs) = x"
proof -
  have ne: "sort_key f xs \<noteq> []"
    using assms(1) by (metis empty_iff empty_set set_sort)
  then obtain h t where ht: "sort_key f xs = h # t"
    by (cases "sort_key f xs") auto
  have "sorted (map f (h # t))"
    using sorted_sort_key [of f xs] by (simp add: ht)
  moreover have "x \<in> set (h # t)"
    using assms(1) by (metis ht set_sort)
  ultimately have le: "f h \<le> f x"
    by auto
  have "h \<in> set xs"
    by (metis ht list.set_intros(1) set_sort)
  then have "h = x"
    using assms(2) le by force
  then show ?thesis
    by (simp add: ht)
qed

lemma join_one_user:
  "distinct (map user_id rs) \<Longrightarrow>
   map fst [(c, r). r \<leftarrow> rs, user_id r = u] = (if u \<in> user_id ` set rs then [c] else [])"
  by (induction rs) auto

lemma join_users_marks:
  assumes "distinct (map user_id (users s))"
  shows "map fst (join_users s) = filter (\<lambda>c. fst c \<in> set (get_all_users s)) (checkins s)"
proof -
  have "map fst (concat (map (\<lambda>c. [(c, r). r \<leftarrow> users s, user_id r = fst c]) cs))
          = filter (\<lambda>c. fst c \<in> user_id ` set (users s)) cs" for cs :: "checkin_row list"
  proof (induction cs)
    case Nil
    then show ?case by simp
  next
    case (Cons c cs)
    show ?case
      using Cons join_one_user [OF assms, where c = c and u = "fst c"] by simp
  qed
  then show ?thesis
    by (simp add: join_users_def get_all_users_def)
qed

lemma get_group_stats_no_filter:
  assumes "distinct (map user_id (users s))"
  shows "get_group_stats s Where_None =
           (let marks = filter (\<lambda>c. fst c \<in> set (get_all_users s)) (checkins s) in
            (length (users s), length marks,
             count_distinct (map (\<lambda>(u, d, h). d) marks),
             group_count_desc (map (\<lambda>(u, d, h). h) marks)))"
proof -
  have d: "map (\<lambda>((u, d, h), r). d) (join_users s) = map (\<lambda>(u, d, h). d) (map fst (join_users s))"
    by (simp add: case_prod_beta comp_def)
  have h: "map (\<lambda>((u, d, h), r). h) (join_users s) = map (\<lambda>(u, d, h). h) (map fst (join_users s))"
    by (simp add: case_prod_beta comp_def)
  have l: "length (join_users s) = length (map fst (join_users s))"
    by simp
  have f: "filter (\<lambda>(c, r). where_holds Where_None r) (join_users s) = join_users s"
    by (simp add: case_prod_beta)
  have u: "filter (where_holds Where_None) (users s) = users s"
    by simp
  show ?thesis
    unfolding get_group_stats_def Let_def f u d h l
    by (simp only: join_users_marks [OF assms])
qed

lemma join_no_user:
  "u \<notin> user_id ` set rs \<Longrightarrow> [(c, r). r \<leftarrow> rs, user_id r = u] = []"
  by (induction rs) auto

lemma join_filter_one:
  "distinct (map user_id rs) \<Longrightarrow>
   length (filter P [(c, r). r \<leftarrow> rs, user_id r = u])
     = (if \<exists>r \<in> set rs. user_id r = u \<and> P (c, r) then 1 else 0)"
proof (induction rs)
  case Nil
  then show ?case by simp
next
  case (Cons a rs)
  show ?case
  proof (cases "user_id a = u")
    case True
    then have "u \<notin> user_id ` set rs"
      using Cons.prems by auto
    then have "[(c, r). r \<leftarrow> rs, user_id r = u] = []" and "\<forall>r \<in> set rs. user_id r \<noteq> u"
      by (auto simp: join_no_user)
    then show ?thesis
      using True by auto
  next
    case False
    then show ?thesis
      using Cons by auto
  qed
qed

lemma length_filter_join:
  assumes "distinct (map user_id (users s))"
  shows "length (filter P (join_users s))
           = length (filter (\<lambda>c. \<exists>r \<in> set (users s). user_id r = fst c \<and> P (c, r)) (checkins s))"
proof -
  have "length (filter P (concat (map (\<lambda>c. [(c, r). r \<leftarrow> users s, user_id r = fst c]) cs)))
          = length (filter (\<lambda>c. \<exists>r \<in> set (users s). user_id r = fst c \<and> P (c, r)) cs)"
    for cs :: "checkin_row list"
  proof (induction cs)
    case Nil
    then show ?case by simp
  next
    case (Cons c cs)
    show ?case
      using Cons join_filter_one [OF assms, where c = c and u = "fst c" and P = P] by simp
  qed
  then show ?thesis
    by (simp add: join_users_def)
qed

lemma window_empty:
  assumes "\<forall>c \<in> set (checkins s). fst (snd c) \<notin> set days"
  shows "window_classes s days = []"
proof -
  have "fst c \<in> set (checkins s)" if "c \<in> set (join_users s)" for c
    using that by (auto simp: join_users_def)
  then have "filter (\<lambda>((u, d, h), r). d \<in> set days) (join_users s) = []"
    using assms by (force simp: filter_empty_conv)
  then show ?thesis
    by (simp add: window_classes_def)
qed

lemma week_days:
  "7 \<le> today \<Longrightarrow>
   days_list isoformat today =
     Inr [isoformat (today - 6), isoformat (today - 5), isoformat (today - 4),
          isoformat (today - 3), isoformat (today - 2), isoformat (today - 1), isoformat today]"
proof -
  have "[0..<7] = [0, 1, 2, 3, 4, 5, 6]"
    by (simp add: upt_rec)
  then show "7 \<le> today \<Longrightarrow> ?thesis"
    by (simp add: days_list_def Let_def)
qed

lemma count_window_none:
  assumes "distinct (map user_id (users s))"
  shows "count_list (window_classes s days) None
           = length (filter (\<lambda>(u, d, h). d \<in> set days
                \<and> (\<exists>r \<in> set (users s). user_id r = u \<and> class_name r = None)) (checkins s))"
proof -
  have "count_list (window_classes s days) None
          = length (filter ((=) None) (window_classes s days))"
    by (rule count_list_eq_length_filter)
  also have "\<dots> = length (filter (\<lambda>((u, d, h), r). d \<in> set days \<and> class_name r = None)
                          (join_users s))"
    unfolding window_classes_def filter_map length_map filter_filter
    by (rule arg_cong [where f = length], rule filter_cong) auto
  also have "\<dots> = length (filter (\<lambda>(u, d, h). d \<in> set days
                \<and> (\<exists>r \<in> set (users s). user_id r = u \<and> class_name r = None)) (checkins s))"
  proof -
    let ?P = "\<lambda>((u, d, h), r). d \<in> set days \<and> class_name r = None"
    have "length (filter ?P (join_users s))
            = length (filter (\<lambda>c. \<exists>r \<in> set (users s). user_id r = fst c \<and> ?P (c, r)) (checkins s))"
      by (rule length_filter_join [OF assms])
    also have "\<dots> = length (filter (\<lambda>(u, d, h). d \<in> set days
                \<and> (\<exists>r \<in> set (users s). user_id r = u \<and> class_name r = None)) (checkins s))"
      by (rule arg_cong [where f = length], rule filter_cong) auto
    finally show ?thesis .
  qed
  finally show ?thesis .
qed

lemma none_bucket_first:
  assumes "\<forall>cls. count_list cs (Some cls) < count_list cs None"
  shows "group_count_desc cs \<noteq> []
       \<and> hd (group_count_desc cs) = (None, count_list cs None)
       \<and> 0 < count_list cs None"
proof -
  have pos: "0 < count_list cs None"
    using assms by (cases "count_list cs None") auto
  then have mem: "None \<in> set cs"
    using count_list_0_iff [of cs None] by auto
  let ?xs = "map (\<lambda>k. (k, count_list cs k)) (remdups cs)"
  have x: "(None, count_list cs None) \<in> set ?xs"
    using mem by auto
  have least: "\<forall>y \<in> set ?xs. y \<noteq> (None, count_list cs None) \<longrightarrow>
      (case (None, count_list cs None) of (k, c) \<Rightarrow> - int c) < (case y of (k, c) \<Rightarrow> - int c)"
  proof (intro ballI impI)
    fix y
    assume y: "y \<in> set ?xs" and other: "y \<noteq> (None, count_list cs None)"
    from y obtain k where k: "y = (k, count_list cs k)"
      by auto
    with other obtain cls where "k = Some cls"
      by (cases k) auto
    then show "(case (None, count_list cs None) of (k, c) \<Rightarrow> - int c)
                 < (case y of (k, c) \<Rightarrow> - int c)"
      using assms k by simp
  qed
  have "hd (group_count_desc cs) = (None, count_list cs None)"
    unfolding group_count_desc_def by (rule hd_sort_key_least [OF x least])
  moreover have "group_count_desc cs \<noteq> []"
    using mem by (auto simp: group_count_desc_Nil_iff)
  ultimately show ?thesis
    using pos by simp
qed

lemma join_nl_first: "set l \<subseteq> set (join_nl (l # ls))"
  by (cases ls) auto

lemma format_top_habits_not_placeholder:
  assumes "by_habit \<noteq> []"
  shows "format_top_habits by_habit 3 \<noteq> NO_DATA_YET"
proof -
  obtain k c rest where bh: "by_habit = (k, c) # rest"
    using assms by (cases by_habit) auto
  have "CHR 0xE2 \<in> set (habit_label k @ EM_DASH_SEP @ str_nat c)"
    by (simp add: EM_DASH_SEP_def)
  then have "CHR 0xE2 \<in> set (format_top_habits by_habit 3)"
    using join_nl_first
      [of "habit_label k @ EM_DASH_SEP @ str_nat c"
          "map (\<lambda>(key, cnt). habit_label key @ EM_DASH_SEP @ str_nat cnt) (take 2 rest)"]
    by (auto simp: format_top_habits_def top_habit_lines_def bh numeral_3_eq_3 numeral_2_eq_2)
  moreover have "CHR 0xE2 \<notin> set NO_DATA_YET"
    by (simp add: NO_DATA_YET_def)
  ultimately show ?thesis
    by metis
qed

section \<open>The claims\<close>

text \<open>
  C1. Toggling twice restores presence. For every store, user id, day and habit key,
  reading the day's marks, flipping the presence of the key and writing it with
  \<open>set_habit\<close>, twice in a row, gives opposite new states \<open>b\<close> and \<open>b'\<close>; afterwards the
  habit is marked for that user and day exactly when it was before, and the set of
  check-in rows and the users are as before. For callback data that splits into that day
  and key, this is what two calls of \<open>cb_toggle\<close> do, the second on the store the first
  returned: both succeed, the first acknowledges \<open>b\<close> and the second \<open>b'\<close>, and the
  two acknowledgement texts differ.
\<close>

theorem cb_toggle_twice_restores:
  "(let b = (key \<notin> get_user_day_habits s uid day);
        s1 = set_habit s uid day key b;
        b' = (key \<notin> get_user_day_habits s1 uid day);
        s2 = set_habit s1 uid day key b'
    in b' = (\<not> b)
       \<and> (key \<in> get_user_day_habits s2 uid day) = (key \<in> get_user_day_habits s uid day)
       \<and> get_user_day_habits s2 uid day = get_user_day_habits s uid day
       \<and> set (checkins s2) = set (checkins s)
       \<and> users s2 = users s
       \<and> (split_colon 2 data = [p, day, key] \<longrightarrow>
            cb_toggle s uid data
              = Inr (s1, [EditReplyMarkup (habits_kb s1 uid day),
                          CbAnswer (if b then MSG_MARKED else MSG_UNMARKED)])
            \<and> cb_toggle s1 uid data
              = Inr (s2, [EditReplyMarkup (habits_kb s2 uid day),
                          CbAnswer (if b' then MSG_MARKED else MSG_UNMARKED)])))
   \<and> MSG_MARKED \<noteq> MSG_UNMARKED"
proof -
  define b where "b = (key \<notin> get_user_day_habits s uid day)"
  define s1 where "s1 = set_habit s uid day key b"
  define b' where "b' = (key \<notin> get_user_day_habits s1 uid day)"
  define s2 where "s2 = set_habit s1 uid day key b'"
  have flip: "b' = (\<not> b)"
    by (auto simp: b'_def s1_def b_def get_user_day_habits_iff set_checkins_set_habit)
  have rows: "set (checkins s2) = set (checkins s)"
    using flip
    by (auto simp: s2_def s1_def b_def get_user_day_habits_iff set_checkins_set_habit)
  have day2: "get_user_day_habits s2 uid day = get_user_day_habits s uid day"
    using rows by (auto simp: get_user_day_habits_iff)
  have us: "users s2 = users s"
    by (simp add: s2_def s1_def users_set_habit)
  have c1: "cb_toggle s uid data
              = Inr (s1, [EditReplyMarkup (habits_kb s1 uid day),
                          CbAnswer (if b then MSG_MARKED else MSG_UNMARKED)])"
    if "split_colon 2 data = [p, day, key]"
    using that by (simp add: cb_toggle_def Let_def s1_def b_def)
  have c2: "cb_toggle s1 uid data
              = Inr (s2, [EditReplyMarkup (habits_kb s2 uid day),
                          CbAnswer (if b' then MSG_MARKED else MSG_UNMARKED)])"
    if "split_colon 2 data = [p, day, key]"
    using that by (simp add: cb_toggle_def Let_def s2_def b'_def)
  have ne: "MSG_MARKED \<noteq> MSG_UNMARKED"
    by (simp add: MSG_MARKED_def MSG_UNMARKED_def)
  have "b' = (\<not> b)
       \<and> (key \<in> get_user_day_habits s2 uid day) = (key \<in> get_user_day_habits s uid day)
       \<and> get_user_day_habits s2 uid day = get_user_day_habits s uid day
       \<and> set (checkins s2) = set (checkins s)
       \<and> users s2 = users s
       \<and> (split_colon 2 data = [p, day, key] \<longrightarrow>
            cb_toggle s uid data
              = Inr (s1, [EditReplyMarkup (habits_kb s1 uid day),
                          CbAnswer (if b then MSG_MARKED else MSG_UNMARKED)])
            \<and> cb_toggle s1 uid data
              = Inr (s2, [EditReplyMarkup (habits_kb s2 uid day),
                          CbAnswer (if b' then MSG_MARKED else MSG_UNMARKED)]))"
    using flip rows day2 us c1 c2 by simp
  then show ?thesis
    unfolding Let_def b_def [symmetric] s1_def [symmetric] b'_def [symmetric] s2_def [symmetric]
    using ne by simp
qed

theorem cb_toggle_twice_restores_witness:
  "split_colon 2 ''toggle:2024-05-01:lights_off'' = [''toggle'', ''2024-05-01'', ''lights_off'']
   \<and> cb_toggle init_db 7 ''toggle:2024-05-01:lights_off''
       = Inr (\<lparr>users = [], checkins = [(7, ''2024-05-01'', ''lights_off'')]\<rparr>,
              [EditReplyMarkup
                 (habits_kb \<lparr>users = [], checkins = [(7, ''2024-05-01'', ''lights_off'')]\<rparr>
                    7 ''2024-05-01''),
               CbAnswer MSG_MARKED])
   \<and> cb_toggle \<lparr>users = [], checkins = [(7, ''2024-05-01'', ''lights_off'')]\<rparr> 7
        ''toggle:2024-05-01:lights_off''
       = Inr (init_db, [EditReplyMarkup (habits_kb init_db 7 ''2024-05-01''), CbAnswer MSG_UNMARKED])
   \<and> get_user_day_habits init_db 7 ''2024-05-01'' = {}
   \<and> get_user_day_habits \<lparr>users = [], checkins = [(7, ''2024-05-01'', ''lights_off'')]\<rparr>
        7 ''2024-05-01'' = {''lights_off''}"
proof -
  let ?s1 = "\<lparr>users = [], checkins = [(7, ''2024-05-01'', ''lights_off'')]\<rparr>"
  have h: "split_colon 2 ''toggle:2024-05-01:lights_off'' = [''toggle'', ''2024-05-01'', ''lights_off'']"
    by (simp add: numeral_eq_Suc)
  have d0: "get_user_day_habits init_db 7 ''2024-05-01'' = {}"
    by (simp add: get_user_day_habits_def init_db_def)
  have s1: "set_habit init_db 7 ''2024-05-01'' ''lights_off'' True = ?s1"
    by (simp add: set_habit_def init_db_def)
  have d1: "get_user_day_habits ?s1 7 ''2024-05-01'' = {''lights_off''}"
    by (simp add: get_user_day_habits_def)
  have s2: "set_habit ?s1 7 ''2024-05-01'' ''lights_off'' False = init_db"
    by (simp add: set_habit_def init_db_def)
  note t = cb_toggle_twice_restores
    [where s = init_db and uid = 7 and day = "''2024-05-01''" and key = "''lights_off''"
       and data = "''toggle:2024-05-01:lights_off''" and p = "''toggle''"]
  have "cb_toggle init_db 7 ''toggle:2024-05-01:lights_off''
       = Inr (?s1, [EditReplyMarkup (habits_kb ?s1 7 ''2024-05-01''), CbAnswer MSG_MARKED])
   \<and> cb_toggle ?s1 7 ''toggle:2024-05-01:lights_off''
       = Inr (init_db, [EditReplyMarkup (habits_kb init_db 7 ''2024-05-01''), CbAnswer MSG_UNMARKED])"
    using t h by (simp add: Let_def d0 s1 d1 s2)
  then show ?thesis
    using h d0 d1 by blast
qed

text \<open>
  C2. \<open>set_habit\<close> is idempotent in both directions: for every store, user id, day, habit
  key and target state, a second call with the same arguments leaves the store exactly
  as the first call left it. The function has no failing branch: \<open>INSERT OR IGNORE\<close>
  skips an existing row and \<open>DELETE\<close> of an absent row deletes nothing, so the model is a
  total function returning a store, on a redundant call too.
\<close>

theorem set_habit_idempotent:
  "set_habit (set_habit s uid day k b) uid day k b = set_habit s uid day k b"
  by (simp add: set_habit_def)

theorem set_habit_idempotent_witness:
  "set_habit (set_habit init_db 7 ''2024-05-01'' ''lights_off'' True) 7 ''2024-05-01'' ''lights_off'' True
     = \<lparr>users = [], checkins = [(7, ''2024-05-01'', ''lights_off'')]\<rparr>
   \<and> set_habit (set_habit init_db 7 ''2024-05-01'' ''lights_off'' False) 7 ''2024-05-01'' ''lights_off'' False
     = init_db"
  using set_habit_idempotent [of init_db 7 "''2024-05-01''" "''lights_off''" True]
        set_habit_idempotent [of init_db 7 "''2024-05-01''" "''lights_off''" False]
  by (simp add: set_habit_def init_db_def)

text \<open>
  C3. For a user id already in the store, \<open>upsert_user\<close> changes the two display-name
  columns of that user's row and nothing else: the row keeps its class and its join
  timestamp (the new timestamp \<open>now\<close> is dropped), the class read back by
  \<open>get_user_class\<close> is the same, every other user's row, the list of user ids and the
  check-ins are unchanged.
\<close>

theorem upsert_user_existing_keeps_class_and_joined:
  assumes "find_user s uid = Some r"
  shows "find_user (upsert_user now s uid uname fname) uid
           = Some (r\<lparr>username := uname, first_name := fname\<rparr>)
       \<and> get_user_class (upsert_user now s uid uname fname) uid = class_name r
       \<and> get_user_class (upsert_user now s uid uname fname) uid = get_user_class s uid
       \<and> map_option joined_at (find_user (upsert_user now s uid uname fname) uid) = Some (joined_at r)
       \<and> (\<forall>v. v \<noteq> uid \<longrightarrow> find_user (upsert_user now s uid uname fname) v = find_user s v)
       \<and> get_all_users (upsert_user now s uid uname fname) = get_all_users s
       \<and> checkins (upsert_user now s uid uname fname) = checkins s"
proof -
  let ?new = "\<lparr>user_id = uid, username = uname, first_name = fname, class_name = None, joined_at = now\<rparr>"
  have same: "find_user (upsert_user now s uid uname fname) uid
                = Some (r\<lparr>username := uname, first_name := fname\<rparr>)"
    using assms find_upsert_row_same [of ?new "users s" r]
    by (simp add: find_user_def upsert_user_def)
  have other: "\<forall>v. v \<noteq> uid \<longrightarrow> find_user (upsert_user now s uid uname fname) v = find_user s v"
    using find_upsert_row_other [of _ ?new "users s"]
    by (simp add: find_user_def upsert_user_def)
  have "uid \<in> user_id ` set (users s)"
    using assms find_user_Some_mem by force
  then have ids: "get_all_users (upsert_user now s uid uname fname) = get_all_users s"
    using ids_upsert_row_present [of ?new "users s"]
    by (simp add: get_all_users_def upsert_user_def)
  show ?thesis
    using same other ids assms
    by (simp add: get_user_class_def upsert_user_def)
qed

theorem upsert_user_existing_keeps_class_and_joined_witness:
  "find_user \<lparr>users = [\<lparr>user_id = 7, username = Some ''ann'', first_name = Some ''Ann'',
                       class_name = Some CLASS_6V, joined_at = ''2024-05-01T19:00:00''\<rparr>],
              checkins = []\<rparr> 7
     = Some \<lparr>user_id = 7, username = Some ''ann'', first_name = Some ''Ann'',
             class_name = Some CLASS_6V, joined_at = ''2024-05-01T19:00:00''\<rparr>
   \<and> find_user (upsert_user ''2024-06-02T08:30:00''
        \<lparr>users = [\<lparr>user_id = 7, username = Some ''ann'', first_name = Some ''Ann'',
                   class_name = Some CLASS_6V, joined_at = ''2024-05-01T19:00:00''\<rparr>],
          checkins = []\<rparr> 7 None (Some ''Anna'')) 7
     = Some \<lparr>user_id = 7, username = None, first_name = Some ''Anna'',
             class_name = Some CLASS_6V, joined_at = ''2024-05-01T19:00:00''\<rparr>"
  using upsert_user_existing_keeps_class_and_joined
    [of "\<lparr>users = [\<lparr>user_id = 7, username = Some ''ann'', first_name = Some ''Ann'',
                     class_name = Some CLASS_6V, joined_at = ''2024-05-01T19:00:00''\<rparr>],
            checkins = []\<rparr>" 7
        "\<lparr>user_id = 7, username = Some ''ann'', first_name = Some ''Ann'',
          class_name = Some CLASS_6V, joined_at = ''2024-05-01T19:00:00''\<rparr>"
        "''2024-06-02T08:30:00''" None "Some ''Anna''"]
  by (simp add: find_user_def)

text \<open>
  C4. The top habits, wherever they are shown. \<open>by_habit\<close> of \<open>get_user_stats\<close> and of
  \<open>get_group_stats\<close> is the grouped, descending count of the habit column of the
  check-ins selected, and each of the three statistics messages ends with
  \<open>format_top_habits by_habit 3\<close>. For every habit column \<open>hs\<close>, with
  \<open>by_habit = group_count_desc hs\<close>: the counts are in descending order; each habit that
  has a check-in appears once, with its number of check-ins, which is positive (a habit
  with none has no row); the lines are those of the first three rows, so there are
  \<open>min 3\<close> (number of different habits) of them, never more than three and fewer
  only when fewer than three habits have a check-in; and the text is the placeholder
  exactly when there is no check-in at all, otherwise the lines joined by newlines.
\<close>

theorem top_three_habits_everywhere:
  "snd (snd (get_user_stats s uid))
     = group_count_desc (map (\<lambda>(u, d, h). h) (filter (\<lambda>(u, d, h). u = uid) (checkins s)))
   \<and> snd (snd (snd (get_group_stats s w)))
     = group_count_desc
         (map (\<lambda>((u, d, h), r). h) (filter (\<lambda>(c, r). where_holds w r) (join_users s)))
   \<and> (\<exists>pre. send_my_stats s uid
         = [Answer (pre @ format_top_habits (snd (snd (get_user_stats s uid))) 3)
              (Some ''Markdown'') main_menu_kb])
   \<and> (truthy (get_user_class s uid) \<longrightarrow>
        (\<exists>pre. send_class_stats s uid
           = [Answer (pre @ format_top_habits
                 (snd (snd (snd (get_group_stats s (Where_Class (the (get_user_class s uid))))))) 3)
                (Some ''Markdown'') main_menu_kb]))
   \<and> (7 \<le> today \<longrightarrow>
        (\<exists>pre. send_school_stats isoformat s today
           = Inr [Answer (pre @ format_top_habits (snd (snd (snd (get_group_stats s Where_None)))) 3)
                    (Some ''Markdown'') main_menu_kb]))
   \<and> (let by_habit = group_count_desc hs in
        sorted_wrt (\<lambda>a b. b \<le> a) (map snd by_habit)
        \<and> distinct (map fst by_habit)
        \<and> set by_habit = (\<lambda>k. (k, count_list hs k)) ` set hs
        \<and> (\<forall>(k, c) \<in> set by_habit. 0 < c)
        \<and> top_habit_lines by_habit 3
            = map (\<lambda>(key, cnt). habit_label key @ EM_DASH_SEP @ str_nat cnt) (take 3 by_habit)
        \<and> length (top_habit_lines by_habit 3) = min 3 (card (set hs))
        \<and> length (top_habit_lines by_habit 3) \<le> 3
        \<and> (length (top_habit_lines by_habit 3) < 3 \<longrightarrow> card (set hs) < 3)
        \<and> (format_top_habits by_habit 3 = NO_DATA_YET \<longleftrightarrow> hs = [])
        \<and> (hs \<noteq> [] \<longrightarrow> format_top_habits by_habit 3 = join_nl (top_habit_lines by_habit 3)
                       \<and> top_habit_lines by_habit 3 \<noteq> []))"
proof -
  have user: "snd (snd (get_user_stats s uid))
     = group_count_desc (map (\<lambda>(u, d, h). h) (filter (\<lambda>(u, d, h). u = uid) (checkins s)))"
    by (simp add: get_user_stats_def Let_def)
  have grp: "snd (snd (snd (get_group_stats s w)))
     = group_count_desc
         (map (\<lambda>((u, d, h), r). h) (filter (\<lambda>(c, r). where_holds w r) (join_users s)))"
    by (simp add: get_group_stats_def Let_def)
  have my: "\<exists>pre. send_my_stats s uid
         = [Answer (pre @ format_top_habits (snd (snd (get_user_stats s uid))) 3)
              (Some ''Markdown'') main_menu_kb]"
  proof -
    obtain t d bh where g: "get_user_stats s uid = (t, d, bh)"
      by (cases "get_user_stats s uid") auto
    have "send_my_stats s uid
            = [Answer ((MSG_MY_STATS_1 @ str_nat d @ MSG_STATS_TOTAL_MY @ str_nat t @ MSG_STATS_TOP)
                       @ format_top_habits (snd (snd (get_user_stats s uid))) 3)
                 (Some ''Markdown'') main_menu_kb]"
      by (simp add: send_my_stats_def g)
    then show ?thesis by blast
  qed
  have cls: "\<exists>pre. send_class_stats s uid
           = [Answer (pre @ format_top_habits
                 (snd (snd (snd (get_group_stats s (Where_Class (the (get_user_class s uid))))))) 3)
                (Some ''Markdown'') main_menu_kb]"
    if "truthy (get_user_class s uid)"
  proof -
    from that obtain c where c: "get_user_class s uid = Some c" "c \<noteq> []"
      by (auto simp: truthy_def split: option.splits)
    obtain n t d bh where g: "get_group_stats s (Where_Class c) = (n, t, d, bh)"
      by (cases "get_group_stats s (Where_Class c)") auto
    have "send_class_stats s uid
            = [Answer ((MSG_CLASS_STATS_1 @ c @ MSG_STATS_MEMBERS @ str_nat n
                          @ MSG_STATS_DAYS @ str_nat d
                          @ MSG_STATS_TOTAL @ str_nat t @ MSG_STATS_TOP)
                       @ format_top_habits
                           (snd (snd (snd (get_group_stats s (Where_Class (the (get_user_class s uid))))))) 3)
                 (Some ''Markdown'') main_menu_kb]"
      by (simp add: send_class_stats_def c g)
    then show ?thesis by blast
  qed
  have school: "\<exists>pre. send_school_stats isoformat s today
           = Inr [Answer (pre @ format_top_habits (snd (snd (snd (get_group_stats s Where_None)))) 3)
                    (Some ''Markdown'') main_menu_kb]"
    if ge: "7 \<le> today"
  proof -
    obtain n t d bh where g: "get_group_stats s Where_None = (n, t, d, bh)"
      by (cases "get_group_stats s Where_None") auto
    obtain days where dl: "days_list isoformat today = Inr days"
      using week_days [OF ge] by blast
    have "send_school_stats isoformat s today
            = Inr [Answer ((MSG_SCHOOL_STATS_1 @ str_nat n @ MSG_STATS_DAYS @ str_nat d
                            @ MSG_STATS_TOTAL @ str_nat t @ MSG_STATS_TOTAL_END
                            @ top_class_line (window_rows s days) @ MSG_STATS_TOP_SCHOOL)
                           @ format_top_habits (snd (snd (snd (get_group_stats s Where_None)))) 3)
                     (Some ''Markdown'') main_menu_kb]"
      by (simp add: send_school_stats_def g dl)
    then show ?thesis by blast
  qed
  let ?bh = "group_count_desc hs"
  have len: "length (top_habit_lines ?bh 3) = min 3 (card (set hs))"
    by (simp add: top_habit_lines_def length_group_count_desc min.commute)
  have le: "length (top_habit_lines ?bh 3) \<le> 3"
    using len by simp
  have lt: "length (top_habit_lines ?bh 3) < 3 \<longrightarrow> card (set hs) < 3"
    using len by (auto simp: min_def split: if_splits)
  have lines: "top_habit_lines ?bh 3
            = map (\<lambda>(key, cnt). habit_label key @ EM_DASH_SEP @ str_nat cnt) (take 3 ?bh)"
    by (simp add: top_habit_lines_def)
  have pos: "\<forall>(k, c) \<in> set ?bh. 0 < c"
    using counts_positive [of _ _ hs] by auto
  have ph: "format_top_habits ?bh 3 = NO_DATA_YET \<longleftrightarrow> hs = []"
    using format_top_habits_not_placeholder [of ?bh]
    by (auto simp: group_count_desc_Nil_iff format_top_habits_def)
  have ne: "hs \<noteq> [] \<longrightarrow> format_top_habits ?bh 3 = join_nl (top_habit_lines ?bh 3)
                       \<and> top_habit_lines ?bh 3 \<noteq> []"
    by (simp add: format_top_habits_def group_count_desc_Nil_iff top_habit_lines_def)
  have gen: "(let by_habit = group_count_desc hs in
        sorted_wrt (\<lambda>a b. b \<le> a) (map snd by_habit)
        \<and> distinct (map fst by_habit)
        \<and> set by_habit = (\<lambda>k. (k, count_list hs k)) ` set hs
        \<and> (\<forall>(k, c) \<in> set by_habit. 0 < c)
        \<and> top_habit_lines by_habit 3
            = map (\<lambda>(key, cnt). habit_label key @ EM_DASH_SEP @ str_nat cnt) (take 3 by_habit)
        \<and> length (top_habit_lines by_habit 3) = min 3 (card (set hs))
        \<and> length (top_habit_lines by_habit 3) \<le> 3
        \<and> (length (top_habit_lines by_habit 3) < 3 \<longrightarrow> card (set hs) < 3)
        \<and> (format_top_habits by_habit 3 = NO_DATA_YET \<longleftrightarrow> hs = [])
        \<and> (hs \<noteq> [] \<longrightarrow> format_top_habits by_habit 3 = join_nl (top_habit_lines by_habit 3)
                       \<and> top_habit_lines by_habit 3 \<noteq> []))"
    unfolding Let_def
    using sorted_group_count_desc [of hs] keys_group_count_desc [of hs]
      set_group_count_desc [of hs] pos lines len le lt ph ne
    by blast
  show ?thesis
    using user grp my cls school gen by blast
qed

theorem top_three_habits_everywhere_witness:
  "truthy (get_user_class example_marks_db 2)
   \<and> (7::int) \<le> 739007
   \<and> get_user_stats example_marks_db 1 = (3, 2, [(''lights_off'', 2), (''no_bag'', 1)])
   \<and> top_habit_lines [(''lights_off'', 2), (''no_bag'', 1)] 3
       = [LBL_LIGHTS_OFF @ EM_DASH_SEP @ ''2'', LBL_NO_BAG @ EM_DASH_SEP @ ''1'']
   \<and> format_top_habits (snd (snd (get_user_stats example_marks_db 1))) 3
       = LBL_LIGHTS_OFF @ EM_DASH_SEP @ ''2'' @ [CHR 0x0A] @ LBL_NO_BAG @ EM_DASH_SEP @ ''1''
   \<and> get_user_stats example_marks_db 3 = (1, 1, [(''lights_off'', 1)])
   \<and> get_user_stats example_marks_db 5 = (0, 0, [])
   \<and> format_top_habits (snd (snd (get_user_stats example_marks_db 5))) 3 = NO_DATA_YET
   \<and> group_count_desc
        [''no_bag'', ''lights_off'', ''no_cup'', ''lights_off'', ''eco_move'', ''no_cup'',
         ''lights_off'', ''no_bag'', ''lights_off'', ''no_cup'']
       = [(''lights_off'', 4), (''no_cup'', 3), (''no_bag'', 2), (''eco_move'', 1)]
   \<and> top_habit_lines
        (group_count_desc
           [''no_bag'', ''lights_off'', ''no_cup'', ''lights_off'', ''eco_move'', ''no_cup'',
            ''lights_off'', ''no_bag'', ''lights_off'', ''no_cup'']) 3
       = [LBL_LIGHTS_OFF @ EM_DASH_SEP @ ''4'', LBL_NO_CUP @ EM_DASH_SEP @ ''3'',
          LBL_NO_BAG @ EM_DASH_SEP @ ''2'']"
proof -
  let ?hs = "[''lights_off'', ''no_bag'', ''lights_off'']"
  let ?hs4 = "[''no_bag'', ''lights_off'', ''no_cup'', ''lights_off'', ''eco_move'', ''no_cup'',
               ''lights_off'', ''no_bag'', ''lights_off'', ''no_cup'']"
  have tr: "truthy (get_user_class example_marks_db 2)"
    by (simp add: truthy_def get_user_class_def find_user_def example_marks_db_def
          example_db_def CLASS_6V_def)
  have ge: "(7::int) \<le> 739007"
    by simp
  have g2: "group_count_desc ?hs = [(''lights_off'', 2), (''no_bag'', 1)]"
    by (simp add: group_count_desc_def)
  have g4: "group_count_desc ?hs4
              = [(''lights_off'', 4), (''no_cup'', 3), (''no_bag'', 2), (''eco_move'', 1)]"
    by (simp add: group_count_desc_def)
  have u1: "get_user_stats example_marks_db 1 = (3, 2, [(''lights_off'', 2), (''no_bag'', 1)])"
    by (simp add: get_user_stats_def example_marks_db_def example_db_def count_distinct_def
          group_count_desc_def)
  have u3: "get_user_stats example_marks_db 3 = (1, 1, [(''lights_off'', 1)])"
    by (simp add: get_user_stats_def example_marks_db_def example_db_def count_distinct_def
          group_count_desc_def)
  have u5: "get_user_stats example_marks_db 5 = (0, 0, [])"
    by (simp add: get_user_stats_def example_marks_db_def example_db_def count_distinct_def
          group_count_desc_def)
  have digits: "str_nat (Suc 0) = ''1''" "str_nat 2 = ''2''" "str_nat 3 = ''3''" "str_nat 4 = ''4''"
    by (simp_all add: str_nat.simps)
  have labels: "habit_label ''lights_off'' = LBL_LIGHTS_OFF" "habit_label ''no_bag'' = LBL_NO_BAG"
    "habit_label ''no_cup'' = LBL_NO_CUP"
    by (simp_all add: habit_label_def HABITS_def)
  note t2 = top_three_habits_everywhere
    [where s = example_marks_db and uid = 1 and today = 739007 and hs = ?hs]
  from t2 have l2: "top_habit_lines (group_count_desc ?hs) 3
      = map (\<lambda>(key, cnt). habit_label key @ EM_DASH_SEP @ str_nat cnt)
          (take 3 (group_count_desc ?hs))"
    unfolding Let_def by blast
  from t2 have "?hs \<noteq> [] \<longrightarrow> format_top_habits (group_count_desc ?hs) 3
      = join_nl (top_habit_lines (group_count_desc ?hs) 3)"
    unfolding Let_def by blast
  then have f2: "format_top_habits (group_count_desc ?hs) 3
      = join_nl (top_habit_lines (group_count_desc ?hs) 3)"
    by simp
  have lines2: "top_habit_lines [(''lights_off'', 2), (''no_bag'', 1)] 3
       = [LBL_LIGHTS_OFF @ EM_DASH_SEP @ ''2'', LBL_NO_BAG @ EM_DASH_SEP @ ''1'']"
    using l2 by (simp add: g2 digits labels)
  have text2: "format_top_habits (snd (snd (get_user_stats example_marks_db 1))) 3
       = LBL_LIGHTS_OFF @ EM_DASH_SEP @ ''2'' @ [CHR 0x0A] @ LBL_NO_BAG @ EM_DASH_SEP @ ''1''"
  proof -
    have j: "join_nl [a, b] = a @ [CHR 0x0A] @ b" for a b
      by simp
    from f2 have "format_top_habits [(''lights_off'', 2), (''no_bag'', 1)] 3
        = join_nl (top_habit_lines [(''lights_off'', 2), (''no_bag'', 1)] 3)"
      by (simp only: g2)
    then show ?thesis
      by (simp only: u1 snd_conv lines2 j append_assoc)
  qed
  note t0 = top_three_habits_everywhere
    [where s = example_marks_db and uid = 5 and today = 739007 and hs = "[]"]
  from t0 have "(format_top_habits (group_count_desc []) 3 = NO_DATA_YET) = (([]::string list) = [])"
    unfolding Let_def by blast
  then have "format_top_habits (group_count_desc []) 3 = NO_DATA_YET"
    by (simp only: simp_thms)
  then have text0: "format_top_habits (snd (snd (get_user_stats example_marks_db 5))) 3 = NO_DATA_YET"
    by (simp add: u5 group_count_desc_def)
  have lines4: "top_habit_lines (group_count_desc ?hs4) 3
       = [LBL_LIGHTS_OFF @ EM_DASH_SEP @ ''4'', LBL_NO_CUP @ EM_DASH_SEP @ ''3'',
          LBL_NO_BAG @ EM_DASH_SEP @ ''2'']"
    by (simp add: g4 top_habit_lines_def digits labels)
  show ?thesis
    using tr ge u1 lines2 text2 u3 u5 text0 g4 lines4 by blast
qed

text \<open>
  C5. A window with no check-in in it gives no row, and the line shown is the
  no-data placeholder; this is how the code renders \<open>(none, 0)\<close>. For every clock reading
  from 7 January of year 1 on, the window of \<open>send_school_stats\<close> is the list of the seven
  day strings from six days before \<open>today\<close> up to \<open>today\<close>, in this order, and the message
  carries \<open>top_class_line\<close> of the rows of exactly that window.
\<close>

theorem school_window_last_seven_days:
  "((\<forall>c \<in> set (checkins s). fst (snd c) \<notin> set days) \<longrightarrow>
      window_rows s days = [] \<and> top_class_line (window_rows s days) = NO_DATA_7_DAYS)
   \<and> (7 \<le> today \<longrightarrow>
        days_list isoformat today =
          Inr [isoformat (today - 6), isoformat (today - 5), isoformat (today - 4),
               isoformat (today - 3), isoformat (today - 2), isoformat (today - 1),
               isoformat today]
        \<and> send_school_stats isoformat s today =
            (case get_group_stats s Where_None of
               (users_count, total_actions, days_count, by_habit) \<Rightarrow>
                 Inr [Answer (MSG_SCHOOL_STATS_1 @ str_nat users_count
                              @ MSG_STATS_DAYS @ str_nat days_count
                              @ MSG_STATS_TOTAL @ str_nat total_actions @ MSG_STATS_TOTAL_END
                              @ top_class_line
                                  (window_rows s
                                     [isoformat (today - 6), isoformat (today - 5),
                                      isoformat (today - 4), isoformat (today - 3),
                                      isoformat (today - 2), isoformat (today - 1),
                                      isoformat today])
                              @ MSG_STATS_TOP_SCHOOL @ format_top_habits by_habit 3)
                        (Some ''Markdown'') main_menu_kb]))"
proof -
  have empty: "window_rows s days = [] \<and> top_class_line (window_rows s days) = NO_DATA_7_DAYS"
    if "\<forall>c \<in> set (checkins s). fst (snd c) \<notin> set days"
    using window_empty [OF that]
    by (simp add: window_rows_def group_count_desc_def top_class_line_def)
  have week: "send_school_stats isoformat s today =
            (case get_group_stats s Where_None of
               (users_count, total_actions, days_count, by_habit) \<Rightarrow>
                 Inr [Answer (MSG_SCHOOL_STATS_1 @ str_nat users_count
                              @ MSG_STATS_DAYS @ str_nat days_count
                              @ MSG_STATS_TOTAL @ str_nat total_actions @ MSG_STATS_TOTAL_END
                              @ top_class_line
                                  (window_rows s
                                     [isoformat (today - 6), isoformat (today - 5),
                                      isoformat (today - 4), isoformat (today - 3),
                                      isoformat (today - 2), isoformat (today - 1),
                                      isoformat today])
                              @ MSG_STATS_TOP_SCHOOL @ format_top_habits by_habit 3)
                        (Some ''Markdown'') main_menu_kb])"
    if "7 \<le> today"
    unfolding send_school_stats_def week_days [OF that]
    by (simp split: prod.splits)
  show ?thesis
    using empty week week_days by blast
qed

theorem school_window_last_seven_days_witness:
  "filter (\<lambda>c. fst (snd c) \<in> set [''2024-05-02'', ''2024-05-03'', ''2024-05-04'', ''2024-05-05'',
                                      ''2024-05-06'', ''2024-05-07'', ''2024-05-08''])
     (checkins example_db) = []
   \<and> (7::int) \<le> 739014
   \<and> days_list example_isoformat 739014
       = Inr [''2024-05-02'', ''2024-05-03'', ''2024-05-04'', ''2024-05-05'',
              ''2024-05-06'', ''2024-05-07'', ''2024-05-08'']
   \<and> window_rows example_db [''2024-05-02'', ''2024-05-03'', ''2024-05-04'', ''2024-05-05'',
                              ''2024-05-06'', ''2024-05-07'', ''2024-05-08''] = []
   \<and> top_class_line
        (window_rows example_db [''2024-05-02'', ''2024-05-03'', ''2024-05-04'', ''2024-05-05'',
                                 ''2024-05-06'', ''2024-05-07'', ''2024-05-08''])
       = NO_DATA_7_DAYS"
proof -
  let ?days = "[''2024-05-02'', ''2024-05-03'', ''2024-05-04'', ''2024-05-05'',
                ''2024-05-06'', ''2024-05-07'', ''2024-05-08'']"
  have h: "\<forall>c \<in> set (checkins example_db). fst (snd c) \<notin> set ?days"
    by (simp add: example_db_def)
  have iso: "[example_isoformat (739014 - 6), example_isoformat (739014 - 5),
              example_isoformat (739014 - 4), example_isoformat (739014 - 3),
              example_isoformat (739014 - 2), example_isoformat (739014 - 1),
              example_isoformat 739014] = ?days"
    by (simp add: example_isoformat_def)
  note t = school_window_last_seven_days [of example_db ?days 739014 example_isoformat]
  from t h have a: "window_rows example_db ?days = []
      \<and> top_class_line (window_rows example_db ?days) = NO_DATA_7_DAYS"
    by blast
  from t have "days_list example_isoformat 739014 =
          Inr [example_isoformat (739014 - 6), example_isoformat (739014 - 5),
               example_isoformat (739014 - 4), example_isoformat (739014 - 3),
               example_isoformat (739014 - 2), example_isoformat (739014 - 1),
               example_isoformat 739014]"
    by simp
  then have b: "days_list example_isoformat 739014 = Inr ?days"
    by (simp only: iso)
  have c: "(7::int) \<le> 739014"
    by simp
  have none: "filter (\<lambda>c. fst (snd c) \<in> set ?days) (checkins example_db) = []"
    using h by (simp only: filter_empty_conv)
  show ?thesis
    using none a b c by blast
qed

text \<open>
  C6. With no filter, \<open>get_group_stats\<close> on a store with unique keys returns as
  \<open>users_count\<close> the number of user rows, which is the number of rows without a class
  plus the number with one; \<open>total_actions\<close>, \<open>days_count\<close> and \<open>by_habit\<close> are the number
  of check-ins of registered users, the number of different days among them, and for each
  habit among them its number of check-ins, largest first. A check-in whose user id has no
  user row is not counted.
\<close>

theorem get_group_stats_all_registered_users:
  assumes "pk_ok s"
  shows "fst (get_group_stats s Where_None) = length (users s)
       \<and> length (users s)
           = length (filter (\<lambda>r. class_name r = None) (users s))
             + length (filter (\<lambda>r. class_name r \<noteq> None) (users s))
       \<and> get_group_stats s Where_None =
           (let marks = filter (\<lambda>c. fst c \<in> set (get_all_users s)) (checkins s) in
            (length (users s), length marks,
             count_distinct (map (\<lambda>(u, d, h). d) marks),
             group_count_desc (map (\<lambda>(u, d, h). h) marks)))
       \<and> (let marks = filter (\<lambda>c. fst c \<in> set (get_all_users s)) (checkins s);
               by_habit = snd (snd (snd (get_group_stats s Where_None))) in
            set by_habit
              = (\<lambda>k. (k, length (filter (\<lambda>(u, d, h). h = k) marks))) ` (\<lambda>(u, d, h). h) ` set marks
            \<and> distinct (map fst by_habit)
            \<and> sorted_wrt (\<lambda>a b. b \<le> a) (map snd by_habit))"
proof -
  have ids: "distinct (map user_id (users s))"
    using assms by (simp add: pk_ok_def)
  note eq = get_group_stats_no_filter [OF ids]
  have split: "length (users s)
           = length (filter (\<lambda>r. class_name r = None) (users s))
             + length (filter (\<lambda>r. class_name r \<noteq> None) (users s))"
    using sum_length_filter_compl [of "\<lambda>r. class_name r = None" "users s"] by simp
  have cnt: "count_list (map (\<lambda>(u, d, h). h) ms) k = length (filter (\<lambda>(u, d, h). h = k) ms)"
    for ms :: "checkin_row list" and k
    by (induction ms) auto
  show ?thesis
    using split
    by (simp add: eq Let_def set_group_count_desc keys_group_count_desc
          sorted_group_count_desc cnt image_image)
qed

theorem get_group_stats_all_registered_users_witness:
  "pk_ok example_marks_db
   \<and> get_group_stats example_marks_db Where_None
       = (3, 6, 2, [(''lights_off'', 4), (''no_bag'', 1), (''no_cup'', 1)])
   \<and> length (filter (\<lambda>r. class_name r = None) (users example_marks_db)) = 1
   \<and> length (checkins example_marks_db) = 7"
proof -
  have pk: "pk_ok example_marks_db"
    by (simp add: pk_ok_def example_marks_db_def example_db_def)
  have v: "(let marks = filter (\<lambda>c. fst c \<in> set (get_all_users example_marks_db))
                          (checkins example_marks_db) in
            (length (users example_marks_db), length marks,
             count_distinct (map (\<lambda>(u, d, h). d) marks),
             group_count_desc (map (\<lambda>(u, d, h). h) marks)))
           = (3, 6, 2, [(''lights_off'', 4), (''no_bag'', 1), (''no_cup'', 1)])"
    by (simp add: example_marks_db_def example_db_def get_all_users_def count_distinct_def
          group_count_desc_def)
  from get_group_stats_all_registered_users [OF pk]
  have "get_group_stats example_marks_db Where_None =
           (let marks = filter (\<lambda>c. fst c \<in> set (get_all_users example_marks_db))
                          (checkins example_marks_db) in
            (length (users example_marks_db), length marks,
             count_distinct (map (\<lambda>(u, d, h). d) marks),
             group_count_desc (map (\<lambda>(u, d, h). h) marks)))"
    by blast
  then have "get_group_stats example_marks_db Where_None
       = (3, 6, 2, [(''lights_off'', 4), (''no_bag'', 1), (''no_cup'', 1)])"
    by (simp only: v)
  then show ?thesis
    using pk by (simp add: example_marks_db_def example_db_def)
qed

text \<open>
  C7. A class label outside \<open>CLASSES\<close> is rejected: for every store, sender and label
  \<open>cls\<close> not in the catalogue, the handler answers the callback with the no-such-class
  text and does nothing else; the store it returns is the store it was given, so no user
  row is created, no name updated and no class set.
\<close>

theorem cb_setclass_unknown_class_rejected:
  assumes "cls \<notin> set CLASSES"
  shows "cb_setclass now s uid uname fname (''class:'' @ cls)
           = Inr (s, [CbAnswer MSG_UNKNOWN_CLASS])"
  using assms by (simp add: cb_setclass_def split_colon_class)

theorem cb_setclass_unknown_class_rejected_witness:
  "''7A'' \<notin> set CLASSES
   \<and> cb_setclass ''2024-05-01T19:00:00'' init_db 7 None (Some ''Ann'') ''class:7A''
       = Inr (init_db, [CbAnswer MSG_UNKNOWN_CLASS])
   \<and> get_all_users init_db = []"
proof -
  have h: "''7A'' \<notin> set CLASSES"
    by (simp add: CLASSES_def CLASS_6V_def CLASS_6G_def)
  show ?thesis
    using h cb_setclass_unknown_class_rejected
            [OF h, of "''2024-05-01T19:00:00''" init_db 7 None "Some ''Ann''"]
    by (simp add: get_all_users_def init_db_def)
qed

text \<open>
  C8. One reminder run over a store with unique user ids and catalogue classes, with
  \<open>N\<close> user rows of which \<open>M\<close> have no class, whatever the transport does: the trace is,
  user by user in \<open>get_all_users\<close> order, one send attempt followed by a warning exactly
  when that send failed, so a failure never stops the users after it; \<open>M\<close> attempts are
  class prompts and \<open>N - M\<close> are check-in prompts; every check-in prompt goes to a user
  with a class, carries the one \<open>day_str\<close> of the run and the keyboard \<open>habits_kb\<close> built
  from that user's check-ins of that day (a habit is ticked exactly when its row is
  stored); the two ticks differ.
\<close>

theorem evening_ping_prompts_and_failures:
  assumes "pk_ok s" and "classes_ok s"
  shows "evening_ping send s day_str = concat (map (ping_row send s day_str) (users s))
       \<and> filter (\<lambda>a. \<not> is_warning a) (evening_ping send s day_str)
           = map (\<lambda>r. if class_name r = None
                       then SendMessage (user_id r) MSG_PING_PICK_CLASS class_pick_kb
                       else SendMessage (user_id r) (MSG_PING_1 @ day_str @ MSG_PING_2)
                              (habits_kb s (user_id r) day_str)) (users s)
       \<and> length (filter is_class_prompt (evening_ping send s day_str))
           = length (filter (\<lambda>r. class_name r = None) (users s))
       \<and> length (filter (is_checkin_prompt s day_str) (evening_ping send s day_str))
           = length (users s) - length (filter (\<lambda>r. class_name r = None) (users s))
       \<and> length (filter is_warning (evening_ping send s day_str))
           = length (filter (\<lambda>r. \<exists>a \<in> set (ping_row send s day_str r). is_warning a) (users s))
       \<and> (\<forall>uid. habits_kb s uid day_str =
            InlineKeyboardMarkup
              (map (\<lambda>(key, label).
                     [InlineKeyboardButton
                        ((if (uid, day_str, key) \<in> set (checkins s) then MARK_ON else MARK_OFF) @ label)
                        (''toggle:'' @ day_str @ '':'' @ key)]) HABITS
               @ [[InlineKeyboardButton BTN_DONE (''done:'' @ day_str)]]))
       \<and> MARK_ON \<noteq> MARK_OFF"
proof -
  have rows: "evening_ping send s day_str = concat (map (ping_row send s day_str) (users s))"
    using assms ping_users_rows [of s "users s" send day_str]
    by (simp add: evening_ping_def get_all_users_def pk_ok_def classes_ok_def)
  have attempts: "filter (\<lambda>a. \<not> is_warning a) (concat (map (ping_row send s day_str) rs))
           = map (\<lambda>r. if class_name r = None
                       then SendMessage (user_id r) MSG_PING_PICK_CLASS class_pick_kb
                       else SendMessage (user_id r) (MSG_PING_1 @ day_str @ MSG_PING_2)
                              (habits_kb s (user_id r) day_str)) rs" for rs
    by (induction rs) (auto simp: ping_row_def try_send_def split: option.splits)
  have checkin: "length (filter (is_checkin_prompt s day_str) (evening_ping send s day_str))
           = length (users s) - length (filter (\<lambda>r. class_name r = None) (users s))"
    using length_filter_complement [of "\<lambda>r. class_name r = None" "users s"]
    by (simp add: rows count_checkin_prompts)
  have ticks: "MARK_ON \<noteq> MARK_OFF"
    by (simp add: MARK_ON_def MARK_OFF_def)
  show ?thesis
    using rows attempts checkin ticks habits_kb_rows
    by (simp add: count_class_prompts count_warnings)
qed

theorem evening_ping_prompts_and_failures_witness:
  "pk_ok example_db \<and> classes_ok example_db
   \<and> length (users example_db) = 3
   \<and> filter (\<lambda>a. \<not> is_warning a) (evening_ping example_transport example_db ''2024-05-01'')
       = [SendMessage 1 MSG_PING_PICK_CLASS class_pick_kb,
          SendMessage 2 (MSG_PING_1 @ ''2024-05-01'' @ MSG_PING_2)
            (habits_kb example_db 2 ''2024-05-01''),
          SendMessage 3 (MSG_PING_1 @ ''2024-05-01'' @ MSG_PING_2)
            (habits_kb example_db 3 ''2024-05-01'')]
   \<and> length (filter is_class_prompt (evening_ping example_transport example_db ''2024-05-01'')) = 1
   \<and> length (filter (is_checkin_prompt example_db ''2024-05-01'')
        (evening_ping example_transport example_db ''2024-05-01'')) = 2
   \<and> length (filter is_warning (evening_ping example_transport example_db ''2024-05-01'')) = 1"
proof -
  have pk: "pk_ok example_db"
    by (simp add: pk_ok_def example_db_def)
  have cl: "classes_ok example_db"
    by (simp add: classes_ok_def example_db_def CLASSES_def)
  have u: "users example_db =
        [\<lparr>user_id = 1, username = None, first_name = Some ''Ann'', class_name = None,
          joined_at = ''2024-04-30T18:00:00''\<rparr>,
         \<lparr>user_id = 2, username = Some ''bob'', first_name = Some ''Bob'',
          class_name = Some CLASS_6V, joined_at = ''2024-04-30T18:05:00''\<rparr>,
         \<lparr>user_id = 3, username = None, first_name = Some ''Eve'',
          class_name = Some CLASS_6G, joined_at = ''2024-04-30T18:10:00''\<rparr>]"
    by (simp add: example_db_def)
  have f2: "example_transport 2 msg kb = Some ''Forbidden''" for msg kb
    by (simp add: example_transport_def)
  have f13: "example_transport 1 msg kb = None" "example_transport 3 msg kb = None" for msg kb
    by (simp_all add: example_transport_def)
  have w: "length (filter (\<lambda>r. \<exists>a \<in> set (ping_row example_transport example_db ''2024-05-01'' r).
             is_warning a) (users example_db)) = 1"
    by (simp add: u ping_row_def try_send_def f2 f13)
  note t = evening_ping_prompts_and_failures [OF pk cl, of example_transport "''2024-05-01''"]
  from t have "length (filter is_warning (evening_ping example_transport example_db ''2024-05-01''))
      = length (filter (\<lambda>r. \<exists>a \<in> set (ping_row example_transport example_db ''2024-05-01'' r).
             is_warning a) (users example_db))"
    by blast
  then have warn: "length (filter is_warning (evening_ping example_transport example_db ''2024-05-01'')) = 1"
    by (simp only: w)
  from t have att: "filter (\<lambda>a. \<not> is_warning a) (evening_ping example_transport example_db ''2024-05-01'')
           = map (\<lambda>r. if class_name r = None
                       then SendMessage (user_id r) MSG_PING_PICK_CLASS class_pick_kb
                       else SendMessage (user_id r) (MSG_PING_1 @ ''2024-05-01'' @ MSG_PING_2)
                              (habits_kb example_db (user_id r) ''2024-05-01'')) (users example_db)"
    by blast
  from t have cnt: "length (filter is_class_prompt (evening_ping example_transport example_db ''2024-05-01''))
           = length (filter (\<lambda>r. class_name r = None) (users example_db))"
       "length (filter (is_checkin_prompt example_db ''2024-05-01'')
            (evening_ping example_transport example_db ''2024-05-01''))
           = length (users example_db) - length (filter (\<lambda>r. class_name r = None) (users example_db))"
    by blast+
  have rest: "filter (\<lambda>a. \<not> is_warning a) (evening_ping example_transport example_db ''2024-05-01'')
       = [SendMessage 1 MSG_PING_PICK_CLASS class_pick_kb,
          SendMessage 2 (MSG_PING_1 @ ''2024-05-01'' @ MSG_PING_2)
            (habits_kb example_db 2 ''2024-05-01''),
          SendMessage 3 (MSG_PING_1 @ ''2024-05-01'' @ MSG_PING_2)
            (habits_kb example_db 3 ''2024-05-01'')]
   \<and> length (filter is_class_prompt (evening_ping example_transport example_db ''2024-05-01'')) = 1
   \<and> length (filter (is_checkin_prompt example_db ''2024-05-01'')
        (evening_ping example_transport example_db ''2024-05-01'')) = 2"
    by (simp add: att cnt u)
  show ?thesis
    using pk cl warn rest by (simp add: u)
qed

text \<open>
  C9, as amended. The rows of users without a class take part in the seven-day grouping
  as the group \<open>None\<close>. On a store with unique keys, the count of that group is the
  number of check-ins in the window whose user has a row with no class, and the group
  is a row of the result exactly when that number is positive. Whenever its count is
  strictly larger than the count of every class, it is the first row, and the line shown
  is the no-data placeholder although check-ins exist in the window; \<open>send_school_stats\<close>
  then prints that placeholder. When the group only shares the highest count with a
  class, the placeholder need not be shown: the counterexample after the next theorem
  is such a window, where the class is named.
\<close>

theorem ungrouped_bucket_hides_top_class:
  assumes "pk_ok s"
  shows "count_list (window_classes s days) None
           = length (filter (\<lambda>(u, d, h). d \<in> set days
                \<and> (\<exists>r \<in> set (users s). user_id r = u \<and> class_name r = None)) (checkins s))
       \<and> ((None, n) \<in> set (window_rows s days)
            \<longleftrightarrow> n = count_list (window_classes s days) None \<and> 0 < n)
       \<and> ((\<forall>cls. count_list (window_classes s days) (Some cls)
                    < count_list (window_classes s days) None) \<longrightarrow>
            window_rows s days \<noteq> []
            \<and> hd (window_rows s days) = (None, count_list (window_classes s days) None)
            \<and> 0 < count_list (window_classes s days) None
            \<and> top_class_line (window_rows s days) = NO_DATA_7_DAYS)
       \<and> (7 \<le> today
            \<and> days_list isoformat today = Inr days
            \<and> (\<forall>cls. count_list (window_classes s days) (Some cls)
                    < count_list (window_classes s days) None) \<longrightarrow>
            send_school_stats isoformat s today =
              (case get_group_stats s Where_None of
                 (users_count, total_actions, days_count, by_habit) \<Rightarrow>
                   Inr [Answer (MSG_SCHOOL_STATS_1 @ str_nat users_count
                                @ MSG_STATS_DAYS @ str_nat days_count
                                @ MSG_STATS_TOTAL @ str_nat total_actions @ MSG_STATS_TOTAL_END
                                @ NO_DATA_7_DAYS
                                @ MSG_STATS_TOP_SCHOOL @ format_top_habits by_habit 3)
                          (Some ''Markdown'') main_menu_kb]))"
proof -
  have ids: "distinct (map user_id (users s))"
    using assms by (simp add: pk_ok_def)
  have row: "(None, n) \<in> set (window_rows s days)
            \<longleftrightarrow> n = count_list (window_classes s days) None \<and> 0 < n"
    using count_list_0_iff [of "window_classes s days" None]
    by (auto simp: window_rows_def set_group_count_desc)
  have top: "window_rows s days \<noteq> []
            \<and> hd (window_rows s days) = (None, count_list (window_classes s days) None)
            \<and> 0 < count_list (window_classes s days) None
            \<and> top_class_line (window_rows s days) = NO_DATA_7_DAYS"
    if h: "\<forall>cls. count_list (window_classes s days) (Some cls)
                    < count_list (window_classes s days) None"
  proof -
    note f = none_bucket_first [OF h]
    then obtain t where "window_rows s days = (None, count_list (window_classes s days) None) # t"
      by (cases "window_rows s days") (auto simp: window_rows_def)
    then have "top_class_line (window_rows s days) = NO_DATA_7_DAYS"
      by (simp add: top_class_line_def truthy_def)
    then show ?thesis
      using f by (simp add: window_rows_def)
  qed
  have msg: "send_school_stats isoformat s today =
              (case get_group_stats s Where_None of
                 (users_count, total_actions, days_count, by_habit) \<Rightarrow>
                   Inr [Answer (MSG_SCHOOL_STATS_1 @ str_nat users_count
                                @ MSG_STATS_DAYS @ str_nat days_count
                                @ MSG_STATS_TOTAL @ str_nat total_actions @ MSG_STATS_TOTAL_END
                                @ NO_DATA_7_DAYS
                                @ MSG_STATS_TOP_SCHOOL @ format_top_habits by_habit 3)
                          (Some ''Markdown'') main_menu_kb])"
    if "days_list isoformat today = Inr days"
      and h: "\<forall>cls. count_list (window_classes s days) (Some cls)
                    < count_list (window_classes s days) None"
    using that(1) top [OF h] by (simp add: send_school_stats_def split: prod.splits)
  show ?thesis
    using count_window_none [OF ids, of days] row top msg by blast
qed

theorem ungrouped_bucket_hides_top_class_witness:
  "pk_ok example_window_db
   \<and> (7::int) \<le> 739007
   \<and> days_list example_isoformat 739007
       = Inr [''2024-04-25'', ''2024-04-26'', ''2024-04-27'', ''2024-04-28'',
              ''2024-04-29'', ''2024-04-30'', ''2024-05-01'']
   \<and> window_rows example_window_db
        [''2024-04-25'', ''2024-04-26'', ''2024-04-27'', ''2024-04-28'',
         ''2024-04-29'', ''2024-04-30'', ''2024-05-01'']
       = [(None, 3), (Some CLASS_6V, 2), (Some CLASS_6G, 1)]
   \<and> top_class_line
        (window_rows example_window_db
           [''2024-04-25'', ''2024-04-26'', ''2024-04-27'', ''2024-04-28'',
            ''2024-04-29'', ''2024-04-30'', ''2024-05-01''])
       = NO_DATA_7_DAYS
   \<and> send_school_stats example_isoformat example_window_db 739007
       = Inr [Answer (MSG_SCHOOL_STATS_1 @ ''3'' @ MSG_STATS_DAYS @ ''2''
                      @ MSG_STATS_TOTAL @ ''6'' @ MSG_STATS_TOTAL_END
                      @ NO_DATA_7_DAYS
                      @ MSG_STATS_TOP_SCHOOL
                      @ format_top_habits [(''lights_off'', 4), (''no_bag'', 2)] 3)
                (Some ''Markdown'') main_menu_kb]"
proof -
  let ?days = "[''2024-04-25'', ''2024-04-26'', ''2024-04-27'', ''2024-04-28'',
                ''2024-04-29'', ''2024-04-30'', ''2024-05-01'']"
  have pk: "pk_ok example_window_db"
    by (simp add: pk_ok_def example_window_db_def example_db_def)
  have ge: "(7::int) \<le> 739007"
    by simp
  have dl: "days_list example_isoformat 739007 = Inr ?days"
    by (simp add: week_days example_isoformat_def)
  have ne: "CLASS_6V \<noteq> CLASS_6G"
    by (simp add: CLASS_6V_def CLASS_6G_def)
  have wc: "window_classes example_window_db ?days
              = [None, None, None, Some CLASS_6V, Some CLASS_6V, Some CLASS_6G]"
    by (simp add: window_classes_def join_users_def example_window_db_def example_db_def)
  have cnt: "\<forall>cls. count_list (window_classes example_window_db ?days) (Some cls)
                    < count_list (window_classes example_window_db ?days) None"
    using ne by (auto simp: wc)
  have rows: "window_rows example_window_db ?days
                = [(None, 3), (Some CLASS_6V, 2), (Some CLASS_6G, 1)]"
    by (simp add: window_rows_def wc group_count_desc_def CLASS_6V_def CLASS_6G_def)
  have gs: "get_group_stats example_window_db Where_None
              = (3, 6, 2, [(''lights_off'', 4), (''no_bag'', 2)])"
    by (simp add: get_group_stats_def join_users_def example_window_db_def example_db_def
          count_distinct_def group_count_desc_def)
  have digits: "str_nat 3 = ''3''" "str_nat 6 = ''6''" "str_nat 2 = ''2''"
    by (simp_all add: str_nat.simps)
  note t = ungrouped_bucket_hides_top_class [OF pk, of ?days _ 739007 example_isoformat]
  from t cnt have line: "top_class_line (window_rows example_window_db ?days) = NO_DATA_7_DAYS"
    by blast
  from t ge dl cnt have "send_school_stats example_isoformat example_window_db 739007 =
              (case get_group_stats example_window_db Where_None of
                 (users_count, total_actions, days_count, by_habit) \<Rightarrow>
                   Inr [Answer (MSG_SCHOOL_STATS_1 @ str_nat users_count
                                @ MSG_STATS_DAYS @ str_nat days_count
                                @ MSG_STATS_TOTAL @ str_nat total_actions @ MSG_STATS_TOTAL_END
                                @ NO_DATA_7_DAYS
                                @ MSG_STATS_TOP_SCHOOL @ format_top_habits by_habit 3)
                          (Some ''Markdown'') main_menu_kb])"
    by blast
  then have msg: "send_school_stats example_isoformat example_window_db 739007
       = Inr [Answer (MSG_SCHOOL_STATS_1 @ ''3'' @ MSG_STATS_DAYS @ ''2''
                      @ MSG_STATS_TOTAL @ ''6'' @ MSG_STATS_TOTAL_END
                      @ NO_DATA_7_DAYS
                      @ MSG_STATS_TOP_SCHOOL
                      @ format_top_habits [(''lights_off'', 4), (''no_bag'', 2)] 3)
                (Some ''Markdown'') main_menu_kb]"
    by (simp add: gs digits)
  show ?thesis
    using pk ge dl rows line msg by blast
qed

text \<open>
  C9, counterexample to the claim as worded. In \<open>example_tie_db\<close>, in the week ending
  1 May 2024, the users without a class have one check-in and class 6V has one: the
  group \<open>None\<close> has the highest count of the window, together with the class. The first
  row of the query is the class, and the line that \<open>send_school_stats\<close> prints names the
  class with its one mark; it is not the placeholder.
\<close>

theorem ungrouped_bucket_tie_names_class_counterexample:
  "pk_ok example_tie_db
   \<and> days_list example_isoformat 739007
       = Inr [''2024-04-25'', ''2024-04-26'', ''2024-04-27'', ''2024-04-28'',
              ''2024-04-29'', ''2024-04-30'', ''2024-05-01'']
   \<and> count_list
        (window_classes example_tie_db
           [''2024-04-25'', ''2024-04-26'', ''2024-04-27'', ''2024-04-28'',
            ''2024-04-29'', ''2024-04-30'', ''2024-05-01'']) None = 1
   \<and> count_list
        (window_classes example_tie_db
           [''2024-04-25'', ''2024-04-26'', ''2024-04-27'', ''2024-04-28'',
            ''2024-04-29'', ''2024-04-30'', ''2024-05-01'']) (Some CLASS_6V) = 1
   \<and> window_rows example_tie_db
        [''2024-04-25'', ''2024-04-26'', ''2024-04-27'', ''2024-04-28'',
         ''2024-04-29'', ''2024-04-30'', ''2024-05-01'']
       = [(Some CLASS_6V, 1), (None, 1)]
   \<and> top_class_line
        (window_rows example_tie_db
           [''2024-04-25'', ''2024-04-26'', ''2024-04-27'', ''2024-04-28'',
            ''2024-04-29'', ''2024-04-30'', ''2024-05-01''])
       = MSG_TOP_CLASS_1 @ CLASS_6V @ MSG_TOP_CLASS_2 @ ''1'' @ MSG_TOP_CLASS_3
   \<and> top_class_line
        (window_rows example_tie_db
           [''2024-04-25'', ''2024-04-26'', ''2024-04-27'', ''2024-04-28'',
            ''2024-04-29'', ''2024-04-30'', ''2024-05-01''])
       \<noteq> NO_DATA_7_DAYS
   \<and> send_school_stats example_isoformat example_tie_db 739007
       = Inr [Answer (MSG_SCHOOL_STATS_1 @ ''3'' @ MSG_STATS_DAYS @ ''1''
                      @ MSG_STATS_TOTAL @ ''2'' @ MSG_STATS_TOTAL_END
                      @ MSG_TOP_CLASS_1 @ CLASS_6V @ MSG_TOP_CLASS_2 @ ''1'' @ MSG_TOP_CLASS_3
                      @ MSG_STATS_TOP_SCHOOL
                      @ format_top_habits [(''lights_off'', 2)] 3)
                (Some ''Markdown'') main_menu_kb]"
proof -
  let ?days = "[''2024-04-25'', ''2024-04-26'', ''2024-04-27'', ''2024-04-28'',
                ''2024-04-29'', ''2024-04-30'', ''2024-05-01'']"
  have pk: "pk_ok example_tie_db"
    by (simp add: pk_ok_def example_tie_db_def example_db_def)
  have dl: "days_list example_isoformat 739007 = Inr ?days"
    by (simp add: week_days example_isoformat_def)
  have wc: "window_classes example_tie_db ?days = [Some CLASS_6V, None]"
    by (simp add: window_classes_def join_users_def example_tie_db_def example_db_def)
  have c0: "count_list (window_classes example_tie_db ?days) None = 1"
    and c1: "count_list (window_classes example_tie_db ?days) (Some CLASS_6V) = 1"
    by (simp_all add: wc)
  have rows: "window_rows example_tie_db ?days = [(Some CLASS_6V, 1), (None, 1)]"
    by (simp add: window_rows_def wc group_count_desc_def)
  have digits: "str_nat (Suc 0) = ''1''" "str_nat 2 = ''2''" "str_nat 3 = ''3''"
    by (simp_all add: str_nat.simps)
  have tr: "truthy (Some CLASS_6V)"
    by (simp add: truthy_def CLASS_6V_def)
  have line: "top_class_line (window_rows example_tie_db ?days)
                = MSG_TOP_CLASS_1 @ CLASS_6V @ MSG_TOP_CLASS_2 @ ''1'' @ MSG_TOP_CLASS_3"
    by (simp add: rows top_class_line_def tr digits)
  have differ: "MSG_TOP_CLASS_1 @ CLASS_6V @ MSG_TOP_CLASS_2 @ ''1'' @ MSG_TOP_CLASS_3
                  \<noteq> NO_DATA_7_DAYS"
    by (simp add: MSG_TOP_CLASS_1_def NO_DATA_7_DAYS_def)
  have shown: "top_class_line (window_rows example_tie_db ?days) \<noteq> NO_DATA_7_DAYS"
    unfolding line by (rule differ)
  have gs: "get_group_stats example_tie_db Where_None = (3, 2, 1, [(''lights_off'', 2)])"
    by (simp add: get_group_stats_def join_users_def example_tie_db_def example_db_def
          count_distinct_def group_count_desc_def)
  have msg: "send_school_stats example_isoformat example_tie_db 739007
       = Inr [Answer (MSG_SCHOOL_STATS_1 @ ''3'' @ MSG_STATS_DAYS @ ''1''
                      @ MSG_STATS_TOTAL @ ''2'' @ MSG_STATS_TOTAL_END
                      @ MSG_TOP_CLASS_1 @ CLASS_6V @ MSG_TOP_CLASS_2 @ ''1'' @ MSG_TOP_CLASS_3
                      @ MSG_STATS_TOP_SCHOOL
                      @ format_top_habits [(''lights_off'', 2)] 3)
                (Some ''Markdown'') main_menu_kb]"
    by (simp add: send_school_stats_def gs dl line digits)
  show ?thesis
    using pk dl c0 c1 rows line shown msg by blast
qed

text \<open>
  C10. \<open>set_user_class\<close> for a user id with no row is a silent no-op: the \<open>UPDATE\<close>
  matches nothing, no row is created, and the store that results is the store it was
  given (the function has no failing branch).
\<close>

theorem set_user_class_unknown_user_noop:
  assumes "find_user s uid = None"
  shows "set_user_class s uid cls = s"
proof -
  have "uid \<notin> user_id ` set (users s)"
    using assms by (simp add: find_user_None_iff)
  then have "map (\<lambda>r. if user_id r = uid then r\<lparr>class_name := Some cls\<rparr> else r) (users s) = users s"
    by (intro map_idI) auto
  then show ?thesis
    by (simp add: set_user_class_def)
qed

theorem set_user_class_unknown_user_noop_witness:
  "find_user init_db 7 = None
   \<and> set_user_class init_db 7 CLASS_6V = init_db
   \<and> get_user_class (set_user_class init_db 7 CLASS_6V) 7 = None
   \<and> get_all_users (set_user_class init_db 7 CLASS_6V) = []"
  using set_user_class_unknown_user_noop [of init_db 7 CLASS_6V]
  by (simp add: find_user_def init_db_def get_user_class_def get_all_users_def)

end
